(* ===== verification/Prelude.thy ===== *)
theory Prelude
  imports
    Complex_Main
    "HOL-Library.List_Lexorder"
    "HOL-Library.Char_ord"
    "HOL-Library.Product_Lexorder"
    "HOL-Library.Multiset"
    "HOL-Library.Sublist"
begin

text \<open>
  Shared vocabulary of the dashboard model (src/app2.py): the type of a numeric
  cell of the data frame, the collections of evaluation and permutation rules the
  component theories fill, and generic lemmas on lists, options and multisets that
  several components use.

  A numeric cell of a pandas float column is a \<open>real option\<close>: \<open>Some v\<close> is
  the value, \<open>None\<close> is NaN (a missing value in the CSV file). Python strings are
  \<open>string\<close>; \<open>HOL-Library.List_Lexorder\<close> with \<open>Char_ord\<close> orders them
  lexicographically by character, which is Python's \<open>str\<close> comparison on the
  ASCII names of the data set. Years are Python \<open>int\<close>, so \<open>int\<close>.
\<close>

type_synonym cell = "real option"

named_theorems df_simps "evaluation rules of the data-frame operations"
named_theorems perm_rules "invariance of an operation under permutation of the rows"

subsection \<open>Distinct sorted key lists\<close>

text \<open>
  \<open>sorted(s.unique())\<close> and the key order of \<open>groupby\<close> are both
  \<open>sort (remdups xs)\<close>: strictly ascending, and determined by the set of values.
\<close>

lemma sorted_wrt_less_sort_remdups [simp]:
  "sorted_wrt (<) (sort (remdups (xs :: 'a :: linorder list)))"
  by (metis sorted_list_of_set_sort_remdups sorted_list_of_set.strict_sorted_key_list_of_set)

lemma sort_remdups_set_eq:
  "set xs = set ys \<Longrightarrow> sort (remdups (xs :: 'a :: linorder list)) = sort (remdups ys)"
  by (metis sorted_list_of_set_sort_remdups)

lemma set_sort_remdups [simp]: "set (sort (remdups xs)) = set xs"
  by simp

lemma distinct_sort_remdups [simp]: "distinct (sort (remdups xs))"
  by simp

subsection \<open>Search\<close>

lemma find_Some_in: "find P xs = Some x \<Longrightarrow> x \<in> set xs \<and> P x"
  by (induction xs) (auto split: if_splits)

subsection \<open>Permutations of rows\<close>

text \<open>
  A permutation of a frame's rows is a list with the same multiset. Filtering and
  mapping keep that relation, so a computation built from them depends only on the
  multiset of rows.
\<close>

lemma mset_filter_cong [perm_rules]:
  "mset xs = mset ys \<Longrightarrow> mset (filter P xs) = mset (filter P ys)"
  by simp

lemma mset_map_cong [perm_rules]:
  "mset xs = mset ys \<Longrightarrow> mset (map f xs) = mset (map f ys)"
  by (metis mset_map)

lemma set_mset_cong [perm_rules]:
  "mset xs = mset ys \<Longrightarrow> set xs = set ys"
  by (metis set_mset_mset)

lemma sum_list_mset_cong [perm_rules]:
  "mset xs = mset (ys :: 'a :: comm_monoid_add list) \<Longrightarrow> sum_list xs = sum_list ys"
  by (metis sum_mset_sum_list)

lemma distinct_mset_cong [perm_rules]:
  "mset xs = mset ys \<Longrightarrow> distinct xs = distinct ys"
  by (rule mset_eq_imp_distinct_iff)

lemma length_mset_cong [perm_rules]:
  "mset xs = mset ys \<Longrightarrow> length xs = length ys"
  by (metis size_mset)

end
