(* ===== verification/Dataset.thy ===== *)
theory Dataset
  imports Prelude
begin

text \<open>
  The data set of src/app2.py: one row of \<open>Global_AI_Content_Impact_Dataset.csv\<close>
  as a record, the numeric columns and their labels (the strings the script indexes
  the frame with), column lookup by label with pandas' \<open>KeyError\<close>, and
  \<open>load_data\<close> (lines 16-20) with the process-wide cache of
  \<open>@st.cache_data\<close> as explicit state.
\<close>

subsection \<open>Rows and frames\<close>

text \<open>
  The fixed schema of the CSV file (spec, section 3). The key columns Year, Country
  and Industry are required; the float columns may hold NaN.
\<close>

record row =
  Year :: int
  Country :: string
  Industry :: string
  adoption_rate :: cell
  content_volume :: cell
  job_loss :: cell
  revenue_increase :: cell
  collaboration_rate :: cell
  top_tools :: string
  regulation_status :: string
  consumer_trust :: cell

text \<open>A data frame is its list of rows in index order.\<close>

type_synonym frame = "row list"

subsection \<open>Numeric columns\<close>

text \<open>
  The numeric columns, in the frame's column order; \<open>select_dtypes(include=[np.number])\<close>
  (line 149) and \<open>select_dtypes(include=['float64', 'int64'])\<close> (line 412) both
  select exactly these: the int64 column Year and the six float64 metrics.
\<close>

datatype numcol = YearC | AdoptionC | ContentC | JobLossC | RevenueC | CollabC | TrustC

fun col_label :: "numcol \<Rightarrow> string" where
  "col_label YearC = ''Year''"
| "col_label AdoptionC = ''AI Adoption Rate (%)''"
| "col_label ContentC = ''AI-Generated Content Volume (TBs per year)''"
| "col_label JobLossC = ''Job Loss Due to AI (%)''"
| "col_label RevenueC = ''Revenue Increase Due to AI (%)''"
| "col_label CollabC = ''Human-AI Collaboration Rate (%)''"
| "col_label TrustC = ''Consumer Trust in AI (%)''"

text \<open>The value of a numeric column in a row; the integer Year is read as a float.\<close>

fun numval :: "numcol \<Rightarrow> row \<Rightarrow> cell" where
  "numval YearC r = Some (of_int (Year r))"
| "numval AdoptionC r = adoption_rate r"
| "numval ContentC r = content_volume r"
| "numval JobLossC r = job_loss r"
| "numval RevenueC r = revenue_increase r"
| "numval CollabC r = collaboration_rate r"
| "numval TrustC r = consumer_trust r"

definition numeric_cols :: "numcol list" where
  "numeric_cols = [YearC, AdoptionC, ContentC, JobLossC, RevenueC, CollabC, TrustC]"

subsection \<open>Errors\<close>

text \<open>
  The exceptions the modelled code can raise: \<open>pd.read_csv\<close> on a missing or
  malformed file, indexing a frame with a label it has no column for, and a plotly
  express call given a column name its data frame does not have (\<open>ValueError\<close>).
\<close>

datatype df_error = FileNotFoundError | ParserError | KeyError string | ValueError string

text \<open>
  \<open>df[label]\<close> where the script indexes with a label a widget chose (line 178 and
  its analogues): those labels are metric labels, so the model resolves the labels
  of the numeric columns and returns \<open>KeyError label\<close> for any other. pandas would
  also resolve the text columns (\<open>Country\<close>, ...); no widget offers them.
\<close>

definition df_column :: "string \<Rightarrow> df_error + numcol" where
  "df_column s = (case find (\<lambda>c. col_label c = s) numeric_cols of
                    None \<Rightarrow> Inl (KeyError s)
                  | Some c \<Rightarrow> Inr c)"

subsection \<open>Loading with the session cache\<close>

text \<open>
  \<open>pd.read_csv\<close> is outside the model; its outcome on the file as it is at the time
  of the call is an input.
\<close>

datatype csv_file = CsvMissing | CsvMalformed | CsvTable frame

text \<open>
  \<open>@st.cache_data\<close> on a function without parameters: one cache entry for the
  process, filled by the first call that returns and never invalidated. A call that
  raises stores nothing.
\<close>

record data_cache =
  cached_frame :: "frame option"

definition empty_cache :: data_cache where
  "empty_cache = \<lparr>cached_frame = None\<rparr>"

definition read_csv :: "csv_file \<Rightarrow> df_error + frame" where
  "read_csv f = (case f of
                   CsvMissing \<Rightarrow> Inl FileNotFoundError
                 | CsvMalformed \<Rightarrow> Inl ParserError
                 | CsvTable t \<Rightarrow> Inr t)"

definition load_data :: "data_cache \<Rightarrow> csv_file \<Rightarrow> df_error + (frame \<times> data_cache)" where
  "load_data c f =
     (case cached_frame c of
        Some t \<Rightarrow> Inr (t, c)
      | None \<Rightarrow> (case read_csv f of
                   Inl e \<Rightarrow> Inl e
                 | Inr t \<Rightarrow> Inr (t, c\<lparr>cached_frame := Some t\<rparr>)))"

subsection \<open>Properties\<close>

lemma col_label_inj: "col_label a = col_label b \<longleftrightarrow> a = b"
  by (cases a; cases b) simp_all

lemma numcol_in_numeric_cols [simp]: "c \<in> set numeric_cols"
  by (cases c) (simp_all add: numeric_cols_def)

lemma distinct_numeric_cols: "distinct numeric_cols"
  by (simp add: numeric_cols_def)

text \<open>Looking a column up by its own label finds it; no other label is a column.\<close>

theorem df_column_label: "df_column (col_label c) = Inr c"
proof -
  have "find (\<lambda>c'. col_label c' = col_label c) numeric_cols = Some c"
    by (cases c) (simp_all add: numeric_cols_def)
  then show ?thesis by (simp add: df_column_def)
qed

lemma df_column_Inr: "df_column s = Inr c \<Longrightarrow> col_label c = s"
  by (auto simp: df_column_def dest: find_Some_in split: option.splits)

text \<open>
  Memoisation: after a call that returns a frame, the cache holds it and every later
  call returns the same frame without reading the file, whatever the file is by then.
\<close>

theorem load_data_memo:
  assumes "load_data c f = Inr (t, c')"
  shows "cached_frame c' = Some t \<and> (\<forall>f'. load_data c' f' = Inr (t, c'))"
  using assms by (auto simp: load_data_def split: option.splits sum.splits)

text \<open>
  A failed load is an error value: it happens only on an empty cache, from the file,
  and leaves the cache empty, so the next run tries the file again.
\<close>

theorem load_data_error:
  "load_data c f = Inl e \<longleftrightarrow>
     cached_frame c = None \<and> read_csv f = Inl e"
  by (auto simp: load_data_def split: option.splits sum.splits)

lemma read_csv_Inl: "read_csv f = Inl e \<longleftrightarrow>
     (f = CsvMissing \<and> e = FileNotFoundError) \<or> (f = CsvMalformed \<and> e = ParserError)"
  by (cases f) (auto simp: read_csv_def)

end
