(* ===== verification/Filters.thy ===== *)
theory Filters
  imports Dataset
begin

text \<open>
  The filter engine of src/app2.py (lines 29-71): the sidebar's option lists
  (\<open>sorted(df[c].unique())\<close>), the multiselect widgets with their
  select-all defaults, and the boolean mask that keeps a row when its Year, Country
  and Industry are all selected. The abstract contract of the spec (section 4.1) is a
  set comprehension, \<open>filtered_view\<close>; \<open>filter_df\<close> refines it and also keeps
  the row order.
\<close>

subsection \<open>Option lists\<close>

text \<open>\<open>sorted(df[c].unique())\<close>: the distinct values in ascending order (lines 30-32).\<close>

definition unique_sorted :: "'a :: linorder list \<Rightarrow> 'a list" where
  "unique_sorted xs = sort (remdups xs)"

record filter_options =
  year_opts :: "int list"
  country_opts :: "string list"
  industry_opts :: "string list"

definition sidebar_options :: "frame \<Rightarrow> filter_options" where
  "sidebar_options df =
     \<lparr>year_opts = unique_sorted (map Year df),
      country_opts = unique_sorted (map Country df),
      industry_opts = unique_sorted (map Industry df)\<rparr>"

subsection \<open>Multiselect widgets\<close>

text \<open>
  \<open>st.multiselect(label, options, default)\<close> (Streamlit, outside the repository:
  its contract). Until the user touches the widget it returns \<open>default\<close>; after,
  the frontend sends the chosen positions in \<open>options\<close> and the widget returns
  those options in the order chosen. A widget's state is \<open>None\<close> (untouched) or
  the list of positions. The frontend only offers positions of \<open>options\<close>; a
  position past the end is dropped here rather than raising.
\<close>

definition pick :: "'a list \<Rightarrow> nat list \<Rightarrow> 'a list" where
  "pick opts ixs = map (\<lambda>i. opts ! i) (filter (\<lambda>i. i < length opts) ixs)"

definition multiselect :: "'a list \<Rightarrow> 'a list \<Rightarrow> nat list option \<Rightarrow> 'a list" where
  "multiselect opts dflt st = (case st of None \<Rightarrow> dflt | Some ixs \<Rightarrow> pick opts ixs)"

text \<open>
  The state of the four sidebar widgets, in the order the script creates them
  (lines 39-64): Years, Countries, the Industries widget with key
  \<open>industries_multiselect\<close>, and the second Industries widget, created without a key.
\<close>

record sidebar_state =
  years_ms :: "nat list option"
  countries_ms :: "nat list option"
  industries_ms :: "nat list option"
  industries_ms2 :: "nat list option"

definition untouched :: sidebar_state where
  "untouched = \<lparr>years_ms = None, countries_ms = None, industries_ms = None, industries_ms2 = None\<rparr>"

record selection =
  sel_years :: "int list"
  sel_countries :: "string list"
  sel_industries :: "string list"

text \<open>
  Lines 29-64. Every default is the full option list. \<open>selected_industries\<close> is
  assigned twice; the second assignment, from the unkeyed widget, is the one the
  filter reads.
\<close>

definition sidebar :: "frame \<Rightarrow> sidebar_state \<Rightarrow> selection" where
  "sidebar df w =
     (let years = unique_sorted (map Year df);
          countries = unique_sorted (map Country df);
          industries = unique_sorted (map Industry df);
          selected_years = multiselect years years (years_ms w);
          selected_countries = multiselect countries countries (countries_ms w);
          selected_industries = multiselect industries industries (industries_ms w);
          selected_industries = multiselect industries industries (industries_ms2 w)
      in \<lparr>sel_years = selected_years, sel_countries = selected_countries,
          sel_industries = selected_industries\<rparr>)"

subsection \<open>The mask\<close>

text \<open>
  Lines 66-71: \<open>df[df['Year'].isin(sy) & df['Country'].isin(sc) & df['Industry'].isin(si)]\<close>.
  Boolean indexing keeps the selected rows in index order.
\<close>

definition row_selected :: "selection \<Rightarrow> row \<Rightarrow> bool" where
  "row_selected s r \<longleftrightarrow>
     Year r \<in> set (sel_years s) \<and> Country r \<in> set (sel_countries s) \<and>
     Industry r \<in> set (sel_industries s)"

definition filter_df :: "frame \<Rightarrow> selection \<Rightarrow> frame" where
  "filter_df df s = filter (row_selected s) df"

text \<open>The spec's contract (section 4.1) on sets of records.\<close>

definition filtered_view :: "row set \<Rightarrow> int set \<Rightarrow> string set \<Rightarrow> string set \<Rightarrow> row set" where
  "filtered_view R ys cs is = {r \<in> R. Year r \<in> ys \<and> Country r \<in> cs \<and> Industry r \<in> is}"

subsection \<open>Option lists and widgets\<close>

lemma set_unique_sorted [simp]: "set (unique_sorted xs) = set xs"
  by (simp add: unique_sorted_def)

lemma unique_sorted_strict: "sorted_wrt (<) (unique_sorted xs)"
  by (simp add: unique_sorted_def)

lemma set_pick: "set (pick opts ixs) \<subseteq> set opts"
  by (auto simp: pick_def)

lemma multiselect_subset:
  "set dflt \<subseteq> set opts \<Longrightarrow> set (multiselect opts dflt st) \<subseteq> set opts"
  by (auto simp: multiselect_def dest: set_pick [THEN subsetD] split: option.splits)

lemmas sidebar_unfold = sidebar_def Let_def

text \<open>
  C20. Every selected value is one the loaded frame has in that column: the
  precondition of the spec's filter contract holds for every widget state.
\<close>

theorem sidebar_within_domain:
  "set (sel_years (sidebar df w)) \<subseteq> Year ` set df \<and>
   set (sel_countries (sidebar df w)) \<subseteq> Country ` set df \<and>
   set (sel_industries (sidebar df w)) \<subseteq> Industry ` set df"
  using multiselect_subset [of "unique_sorted (map Year df)" "unique_sorted (map Year df)"]
    multiselect_subset [of "unique_sorted (map Country df)" "unique_sorted (map Country df)"]
    multiselect_subset [of "unique_sorted (map Industry df)" "unique_sorted (map Industry df)"]
  by (simp add: sidebar_unfold)

text \<open>
  C6. The keyed Industries widget (lines 53-58) has no effect: whatever the user selects
  in it, the selection the filter uses is that of the unkeyed widget (lines 60-64).
\<close>

theorem sidebar_ignores_keyed_industries:
  "sidebar df (w\<lparr>industries_ms := st\<rparr>) = sidebar df w"
  by (simp add: sidebar_unfold)

theorem sidebar_industries_from_second_widget:
  "sel_industries (sidebar df w) =
     multiselect (unique_sorted (map Industry df)) (unique_sorted (map Industry df)) (industries_ms2 w)"
  by (simp add: sidebar_unfold)

subsection \<open>The filter\<close>

lemma filter_df_append [df_simps]:
  "filter_df (xs @ ys) s = filter_df xs s @ filter_df ys s"
  by (simp add: filter_df_def)

lemma filter_df_Nil [df_simps]: "filter_df [] s = []"
  by (simp add: filter_df_def)

lemma filter_df_Cons [df_simps]:
  "filter_df (r # rs) s = (if row_selected s r then r # filter_df rs s else filter_df rs s)"
  by (simp add: filter_df_def)

lemma mset_filter_df_cong [perm_rules]:
  "mset xs = mset ys \<Longrightarrow> mset (filter_df xs s) = mset (filter_df ys s)"
  by (simp add: filter_df_def)

text \<open>
  C1. Refinement of the spec's contract: the rows of the filtered frame are exactly
  \<open>filtered_view\<close> of the rows of the frame, for the selected sets.
\<close>

theorem filter_df_refines:
  "set (filter_df df s) =
     filtered_view (set df) (set (sel_years s)) (set (sel_countries s)) (set (sel_industries s))"
  by (auto simp: filter_df_def filtered_view_def row_selected_def)

text \<open>
  C2. The filtered frame is a sub-sequence of the frame (a subset, in the original row
  order) and every row of it satisfies all three membership predicates.
\<close>

theorem filter_df_sound:
  "subseq (filter_df df s) df \<and>
   (\<forall>r \<in> set (filter_df df s).
      Year r \<in> set (sel_years s) \<and> Country r \<in> set (sel_countries s) \<and>
      Industry r \<in> set (sel_industries s))"
  by (auto simp: filter_df_def row_selected_def)

text \<open>C4. Nothing selected in any one dimension gives the empty frame, not an error.\<close>

theorem filter_df_empty_dimension:
  "sel_years s = [] \<or> sel_countries s = [] \<or> sel_industries s = [] \<Longrightarrow> filter_df df s = []"
  by (auto simp: filter_df_def row_selected_def)

text \<open>
  C3. With the widgets untouched (select all, the default) the filter keeps every row,
  in order.
\<close>

theorem filter_df_defaults: "filter_df df (sidebar df untouched) = df"
  by (auto simp: filter_df_def row_selected_def sidebar_unfold untouched_def multiselect_def
      intro!: filter_True)

text \<open>C24. Selecting more values in any dimension never removes a row.\<close>

theorem filter_df_mono:
  assumes "set (sel_years s) \<subseteq> set (sel_years s')"
    and "set (sel_countries s) \<subseteq> set (sel_countries s')"
    and "set (sel_industries s) \<subseteq> set (sel_industries s')"
  shows "subseq (filter_df df s) (filter_df df s')"
proof -
  have "filter_df df s = filter (row_selected s) (filter_df df s')"
    using assms by (auto simp: filter_df_def row_selected_def intro!: filter_cong)
  then show ?thesis by simp
qed

end
