(* ===== verification/Aggregation.thy ===== *)
theory Aggregation
  imports Prelude
begin

text \<open>
  The aggregation layer of src/app2.py, as the pandas operations the script calls:
  \<open>Series.mean\<close> and \<open>Series.sum\<close> (NaN skipped), \<open>Series.nunique\<close>,
  \<open>DataFrame.groupby(key)[col].mean()\<close> (groups in ascending key order, one per
  key present), \<open>sort_values(col, ascending=False)\<close> (NaN last) and
  \<open>value_counts()\<close> (counts, most frequent first). The operations are generic in
  the row type; the dashboard theory instantiates them with the columns of
  \<open>Dataset.row\<close>.
\<close>

subsection \<open>Reductions of a column\<close>

text \<open>The values of the cells that are not NaN, in row order (\<open>skipna=True\<close>).\<close>

fun dropna :: "cell list \<Rightarrow> real list" where
  "dropna [] = []"
| "dropna (None # xs) = dropna xs"
| "dropna (Some v # xs) = v # dropna xs"

text \<open>
  \<open>Series.mean()\<close>: the mean of the values that are not NaN; NaN (\<open>None\<close>) when
  there is none, also on an empty series. It never raises.
\<close>

definition series_mean :: "cell list \<Rightarrow> cell" where
  "series_mean xs =
     (let vs = dropna xs in
      if vs = [] then None else Some (sum_list vs / real (length vs)))"

text \<open>\<open>Series.sum()\<close>: the sum of the values that are not NaN; 0 on none.\<close>

definition series_sum :: "cell list \<Rightarrow> real" where
  "series_sum xs = sum_list (dropna xs)"

text \<open>\<open>Series.nunique()\<close> of a column without NaN: the number of distinct values.\<close>

definition nunique :: "'a list \<Rightarrow> nat" where
  "nunique xs = length (remdups xs)"

text \<open>
  \<open>Series.unique()\<close>: the distinct values in order of first appearance, as pandas'
  hash-table pass builds them: a value is emitted when it is not among those already
  seen. (\<open>remdups\<close> keeps the last occurrence instead.)
\<close>

fun unique_from :: "'a list \<Rightarrow> 'a list \<Rightarrow> 'a list" where
  "unique_from seen [] = []"
| "unique_from seen (x # xs) =
     (if x \<in> set seen then unique_from seen xs else x # unique_from (x # seen) xs)"

definition pd_unique :: "'a list \<Rightarrow> 'a list" where
  "pd_unique xs = unique_from [] xs"

subsection \<open>Group by\<close>

text \<open>
  \<open>df.groupby(key)[...].agg()\<close> with the default \<open>sort=True\<close>: one group per key
  value that occurs, in ascending key order; a group holds the rows with that key in
  their original order, and the aggregation is applied to it. A key with no row has
  no group. A pair of keys (\<open>groupby(['Year', c])\<close>) is a key of product type,
  ordered lexicographically, as pandas orders a MultiIndex.
\<close>

definition groupby_agg :: "('r \<Rightarrow> 'k :: linorder) \<Rightarrow> ('r list \<Rightarrow> 'v) \<Rightarrow> 'r list \<Rightarrow> ('k \<times> 'v) list" where
  "groupby_agg key agg t =
     map (\<lambda>k. (k, agg (filter (\<lambda>r. key r = k) t))) (sort (remdups (map key t)))"

text \<open>\<open>df.groupby(key)[col].mean().reset_index()\<close>.\<close>

definition groupby_mean :: "('r \<Rightarrow> 'k :: linorder) \<Rightarrow> ('r \<Rightarrow> cell) \<Rightarrow> 'r list \<Rightarrow> ('k \<times> cell) list" where
  "groupby_mean key col t = groupby_agg key (\<lambda>g. series_mean (map col g)) t"

subsection \<open>Sorting by value, descending\<close>

text \<open>
  \<open>sort_values(col, ascending=False)\<close> with the default \<open>na_position='last'\<close>:
  values from largest to smallest, NaN rows after all others. The sort key puts
  numbers (\<open>False\<close>) before NaN (\<open>True\<close>) and larger numbers first. Equal values
  keep their order here (a stable sort); pandas' default quicksort promises no order
  among them, and no property below depends on it.
\<close>

fun desc_key :: "cell \<Rightarrow> bool \<times> real" where
  "desc_key None = (True, 0)"
| "desc_key (Some v) = (False, - v)"

definition sort_values_desc :: "('k \<times> cell) list \<Rightarrow> ('k \<times> cell) list" where
  "sort_values_desc xs = sort_key (\<lambda>p. desc_key (snd p)) xs"

text \<open>The order the spec asks for: a number before NaN, a larger number first.\<close>

fun cell_ge :: "cell \<Rightarrow> cell \<Rightarrow> bool" where
  "cell_ge (Some a) (Some b) = (b \<le> a)"
| "cell_ge (Some a) None = True"
| "cell_ge None None = True"
| "cell_ge None (Some b) = False"

subsection \<open>Value counts\<close>

text \<open>
  \<open>s.value_counts()\<close>: each distinct value with the number of rows holding it,
  most frequent first. Distinct values are found in order of first occurrence, then
  sorted by count (ties as \<open>sort_values_desc\<close>).
\<close>

definition value_counts :: "'a list \<Rightarrow> ('a \<times> nat) list" where
  "value_counts xs =
     sort_key (\<lambda>p. - int (snd p)) (map (\<lambda>v. (v, count_list xs v)) (pd_unique xs))"

subsection \<open>Reductions: properties\<close>

lemma dropna_append [simp]: "dropna (xs @ ys) = dropna xs @ dropna ys"
  by (induction xs rule: dropna.induct) simp_all

lemma set_dropna: "set (dropna xs) = {v. Some v \<in> set xs}"
  by (induction xs rule: dropna.induct) auto

lemma dropna_Nil_iff: "dropna xs = [] \<longleftrightarrow> (\<forall>x \<in> set xs. x = None)"
  by (induction xs rule: dropna.induct) simp_all

lemma mset_dropna: "mset (dropna xs) = image_mset the (filter_mset (\<lambda>x. x \<noteq> None) (mset xs))"
  by (induction xs rule: dropna.induct) simp_all

lemma mset_dropna_cong [perm_rules]: "mset xs = mset ys \<Longrightarrow> mset (dropna xs) = mset (dropna ys)"
  by (simp add: mset_dropna)

lemmas series_unfold = series_mean_def series_sum_def Let_def

text \<open>The mean of a single row is that row's value exactly; a single NaN gives NaN.\<close>

theorem series_mean_single: "series_mean [Some v] = Some v \<and> series_mean [None] = None"
  by (simp add: series_unfold)

text \<open>
  C9. The mean is NaN exactly when no cell holds a value (an empty series
  included): no data, never an exception.
\<close>

theorem series_mean_None_iff: "series_mean xs = None \<longleftrightarrow> (\<forall>x \<in> set xs. x = None)"
  by (simp add: series_unfold dropna_Nil_iff)

lemma series_mean_Nil [simp]: "series_mean [] = None"
  by (simp add: series_unfold)

text \<open>
  C10. Bounds: when every value lies in \<open>[lo, hi]\<close> (a percentage column within
  \<open>[0, 100]\<close>), so does the mean.
\<close>

theorem series_mean_bounds:
  assumes "\<forall>v \<in> set (dropna xs). lo \<le> v \<and> v \<le> hi"
    and "series_mean xs = Some m"
  shows "lo \<le> m \<and> m \<le> hi"
proof -
  let ?vs = "dropna xs"
  from assms(2) have ne: "?vs \<noteq> []" and m: "m = sum_list ?vs / real (length ?vs)"
    by (auto simp: series_unfold split: if_splits)
  have n: "0 < real (length ?vs)" using ne by simp
  have "real (length ?vs) * lo \<le> sum_list ?vs"
    using sum_list_mono [of ?vs "\<lambda>_. lo" "\<lambda>v. v"] assms(1) by (simp add: sum_list_triv)
  moreover have "sum_list ?vs \<le> real (length ?vs) * hi"
    using sum_list_mono [of ?vs "\<lambda>v. v" "\<lambda>_. hi"] assms(1) by (simp add: sum_list_triv)
  ultimately show ?thesis
    using n by (simp add: m field_simps)
qed

lemma series_mean_ne_sum:
  assumes "2 \<le> length (dropna xs)" "series_sum xs \<noteq> 0"
  shows "series_mean xs \<noteq> Some (series_sum xs)"
proof
  assume "series_mean xs = Some (series_sum xs)"
  then have "sum_list (dropna xs) / real (length (dropna xs)) = sum_list (dropna xs)"
    using assms(1) by (auto simp: series_unfold split: if_splits)
  moreover have "real (length (dropna xs)) \<noteq> 1" "real (length (dropna xs)) \<noteq> 0"
    using assms(1) by auto
  ultimately show False using assms(2) by (simp add: series_sum_def divide_eq_eq)
qed

lemma series_mean_perm [perm_rules]: "mset xs = mset ys \<Longrightarrow> series_mean xs = series_mean ys"
proof -
  assume "mset xs = mset ys"
  then have "mset (dropna xs) = mset (dropna ys)" by (rule mset_dropna_cong)
  then have "sum_list (dropna xs) = sum_list (dropna ys)" and
    "length (dropna xs) = length (dropna ys)" and "dropna xs = [] \<longleftrightarrow> dropna ys = []"
    by (auto intro: perm_rules)
  then show ?thesis by (simp add: series_unfold)
qed

text \<open>
  The sum skips NaN and is additive over row blocks; with no rows or only NaN it
  is 0.
\<close>

theorem series_sum_append:
  "series_sum (xs @ ys) = series_sum xs + series_sum ys \<and> series_sum [] = 0 \<and>
   series_sum (None # xs) = series_sum xs \<and> series_sum (Some v # xs) = v + series_sum xs"
  by (simp add: series_unfold)

lemma set_unique_from: "set (unique_from seen xs) = set xs - set seen"
  by (induction seen xs rule: unique_from.induct) auto

lemma distinct_unique_from: "distinct (unique_from seen xs)"
  by (induction seen xs rule: unique_from.induct) (auto simp: set_unique_from)

lemma set_pd_unique [simp]: "set (pd_unique xs) = set xs"
  by (simp add: pd_unique_def set_unique_from)

lemma distinct_pd_unique [simp]: "distinct (pd_unique xs)"
  by (simp add: pd_unique_def distinct_unique_from)

lemma pd_unique_Nil [simp]: "pd_unique [] = []"
  by (simp add: pd_unique_def)

lemma pd_unique_Nil_iff [simp]: "pd_unique xs = [] \<longleftrightarrow> xs = []"
  by (metis set_pd_unique set_empty)

lemma mset_pd_unique: "mset (pd_unique xs) = mset (remdups xs)"
  by (simp add: set_eq_iff_mset_eq_distinct [symmetric])

lemma hd_pd_unique: "pd_unique (x # xs) ! 0 = x"
  by (simp add: pd_unique_def)

lemma nunique_set: "nunique xs = card (set xs)"
  by (simp add: nunique_def length_remdups_card_conv)

subsection \<open>Group by: properties\<close>

lemma groupby_agg_keys: "map fst (groupby_agg key agg t) = sort (remdups (map key t))"
  by (simp add: groupby_agg_def comp_def)

lemma groupby_agg_lookup:
  "map_of (groupby_agg key agg t) k =
     (if k \<in> key ` set t then Some (agg (filter (\<lambda>r. key r = k) t)) else None)"
  by (simp add: groupby_agg_def map_of_map_restrict restrict_map_def)

lemma distinct_groupby_agg_keys [simp]: "distinct (map fst (groupby_agg key agg t))"
  by (simp add: groupby_agg_keys)

lemma groupby_agg_group_nonempty:
  "(k, v) \<in> set (groupby_agg key agg t) \<Longrightarrow> filter (\<lambda>r. key r = k) t \<noteq> []"
  by (auto simp: groupby_agg_def filter_empty_conv)

lemma groupby_agg_perm:
  assumes agg: "\<And>g g'. mset g = mset g' \<Longrightarrow> agg g = agg g'"
    and t: "mset t = mset t'"
  shows "groupby_agg key agg t = groupby_agg key agg t'"
proof -
  have "set t = set t'" using t by (rule set_mset_cong)
  then have keys: "sort (remdups (map key t)) = sort (remdups (map key t'))"
    by (intro sort_remdups_set_eq) simp
  have "agg (filter (\<lambda>r. key r = k) t) = agg (filter (\<lambda>r. key r = k) t')" for k
    using t by (intro agg) (rule perm_rules)
  then show ?thesis by (simp add: groupby_agg_def keys)
qed

text \<open>
  Order independence: permuting the rows of the frame does not change the result
  of \<open>groupby(key)[col].mean()\<close> (no explicit sort involved). The model computes
  in exact arithmetic (see the header for floating point).
\<close>

theorem groupby_mean_perm:
  "mset t = mset t' \<Longrightarrow> groupby_mean key col t = groupby_mean key col t'"
  unfolding groupby_mean_def
  by (rule groupby_agg_perm) (auto intro: perm_rules)

subsection \<open>Sorting by value: properties\<close>

lemma desc_key_cell_ge: "desc_key a \<le> desc_key b \<Longrightarrow> cell_ge a b"
  by (cases a; cases b) auto

lemma mset_sort_values_desc: "mset (sort_values_desc xs) = mset xs"
  by (simp add: sort_values_desc_def)

lemma sorted_sort_values_desc: "sorted_wrt cell_ge (map snd (sort_values_desc xs))"
proof -
  have "sorted (map (\<lambda>p. desc_key (snd p)) (sort_key (\<lambda>p. desc_key (snd p)) xs))"
    by (rule sorted_sort_key)
  then have "sorted_wrt (\<lambda>a b. desc_key a \<le> desc_key b) (map snd (sort_values_desc xs))"
    by (simp add: sort_values_desc_def sorted_wrt_map comp_def)
  then show ?thesis
    by (rule sorted_wrt_mono_rel [rotated]) (rule desc_key_cell_ge)
qed

lemma map_of_sort_values_desc:
  assumes "distinct (map fst xs)"
  shows "map_of (sort_values_desc xs) = map_of xs"
proof -
  have "mset (map fst (sort_values_desc xs)) = mset (map fst xs)"
    using mset_sort_values_desc by (rule mset_map_cong)
  then have "distinct (map fst (sort_values_desc xs))"
    using assms distinct_mset_cong by blast
  with assms show ?thesis
    by (simp add: map_of_inject_set mset_eq_setD [OF mset_sort_values_desc])
qed

text \<open>
  C7. \<open>sort_values(ascending=False)\<close> returns the same rows, reordered so that
  values never increase along the result and every NaN row comes after all rows
  with a value.
\<close>

theorem sort_values_desc_correct:
  "mset (sort_values_desc xs) = mset xs \<and> sorted_wrt cell_ge (map snd (sort_values_desc xs))"
  by (simp add: mset_sort_values_desc sorted_sort_values_desc)

subsection \<open>Value counts: properties\<close>

lemma value_counts_unsorted:
  "mset (value_counts xs) = mset (map (\<lambda>v. (v, count_list xs v)) (remdups xs))"
  unfolding value_counts_def mset_sort by (rule mset_map_cong) (rule mset_pd_unique)

lemma distinct_value_counts: "distinct (map fst (value_counts xs))"
proof -
  have "mset (map fst (value_counts xs)) = mset (map fst (map (\<lambda>v. (v, count_list xs v)) (remdups xs)))"
    using value_counts_unsorted by (rule mset_map_cong)
  then have "distinct (map fst (value_counts xs)) = distinct (map fst (map (\<lambda>v. (v, count_list xs v)) (remdups xs)))"
    by (rule distinct_mset_cong)
  then show ?thesis by (simp add: comp_def)
qed

lemma map_of_value_counts:
  "map_of (value_counts xs) = (Some \<circ> count_list xs) |` set xs"
proof -
  let ?u = "map (\<lambda>v. (v, count_list xs v)) (remdups xs)"
  have "set (value_counts xs) = set ?u" using value_counts_unsorted by (rule set_mset_cong)
  then have "map_of (value_counts xs) = map_of ?u"
    using distinct_value_counts [of xs] by (simp add: map_of_inject_set comp_def)
  then show ?thesis by (simp add: map_of_map_restrict)
qed

lemma sum_value_counts: "sum_list (map snd (value_counts xs)) = length xs"
proof -
  let ?u = "map (\<lambda>v. (v, count_list xs v)) (remdups xs)"
  have "mset (map snd (value_counts xs)) = mset (map snd ?u)"
    using value_counts_unsorted by (rule mset_map_cong)
  then have "sum_list (map snd (value_counts xs)) = sum_list (map snd ?u)"
    by (rule sum_list_mset_cong)
  also have "\<dots> = sum (count_list xs) (set xs)"
    by (simp add: comp_def sum_list_distinct_conv_sum_set)
  also have "\<dots> = length xs" by (simp add: sum_count_set)
  finally show ?thesis .
qed

lemma sorted_value_counts: "sorted_wrt (\<ge>) (map snd (value_counts xs))"
proof -
  have "sorted (map (\<lambda>p. - int (snd p)) (value_counts xs))"
    unfolding value_counts_def by (rule sorted_sort_key)
  then have "sorted_wrt (\<lambda>a b. - int a \<le> - int b) (map snd (value_counts xs))"
    by (simp add: sorted_wrt_map comp_def)
  then show ?thesis by (rule sorted_wrt_mono_rel [rotated]) simp
qed

lemma value_counts_in: "(v, n) \<in> set (value_counts xs) \<Longrightarrow> v \<in> set xs \<and> n = count_list xs v"
proof -
  assume "(v, n) \<in> set (value_counts xs)"
  then have "map_of (value_counts xs) v = Some n"
    using distinct_value_counts by (rule map_of_is_SomeI [rotated])
  then show ?thesis by (auto simp: map_of_value_counts restrict_map_def split: if_splits)
qed

lemma value_counts_perm [perm_rules]:
  assumes m: "mset xs = mset ys"
  shows "mset (value_counts xs) = mset (value_counts ys)"
proof -
  have c: "count_list xs = count_list ys"
    using m by (simp add: fun_eq_iff flip: count_mset)
  have "mset (remdups xs) = mset (remdups ys)"
    using set_mset_cong [OF m] by (metis distinct_remdups mset_set_set set_remdups)
  then have "mset (map (\<lambda>v. (v, count_list xs v)) (remdups xs)) =
             mset (map (\<lambda>v. (v, count_list ys v)) (remdups ys))"
    unfolding c by (rule mset_map_cong)
  then show ?thesis by (simp add: value_counts_unsorted)
qed

text \<open>
  C8. \<open>value_counts\<close> reports each distinct value once with its number of rows,
  no value that does not occur, counts that add up to the number of rows, and the
  most frequent value first.
\<close>

theorem value_counts_correct:
  "map_of (value_counts xs) v = (if v \<in> set xs then Some (count_list xs v) else None) \<and>
   distinct (map fst (value_counts xs)) \<and>
   sum_list (map snd (value_counts xs)) = length xs \<and>
   sorted_wrt (\<ge>) (map snd (value_counts xs))"
  by (simp add: map_of_value_counts distinct_value_counts sum_value_counts sorted_value_counts)

end
