(* ===== verification/Widgets.thy ===== *)
theory Widgets
  imports Dataset
begin

text \<open>
  The single-choice widgets of src/app2.py (\<open>st.selectbox\<close>, \<open>st.radio\<close>) with
  Streamlit's contract, the literal option lists of the metric and grouping widgets,
  and the column lookups their choices drive. The lemmas show that no choice
  offered by these widgets can raise a \<open>KeyError\<close>.
\<close>

subsection \<open>Single-choice widgets\<close>

text \<open>
  \<open>st.selectbox(label, options)\<close> and \<open>st.radio(label, options)\<close> (Streamlit's
  contract): the option at the chosen position, the first option while untouched,
  \<open>None\<close> when there is no option. The frontend only sends positions of the shown
  options; a position past the end falls back to the first option.
\<close>

definition selectbox :: "'a list \<Rightarrow> nat option \<Rightarrow> 'a option" where
  "selectbox opts st =
     (let i = (case st of None \<Rightarrow> 0 | Some i \<Rightarrow> i) in
      if i < length opts then Some (opts ! i)
      else (case opts of [] \<Rightarrow> None | x # _ \<Rightarrow> Some x))"

text \<open>
  An unkeyed widget is identified by its parameters, the options included: when the
  options change (they depend on the filtered data for the tool selectboxes) it is a
  new widget showing its default. Its state is the options it was shown with and the
  position chosen among them.
\<close>

definition selectbox_for :: "'a list \<Rightarrow> ('a list \<times> nat) option \<Rightarrow> 'a option" where
  "selectbox_for opts st =
     selectbox opts (case st of None \<Rightarrow> None | Some (shown, i) \<Rightarrow> if shown = opts then Some i else None)"

text \<open>The metric choices of the comparison and trend tabs (lines 172-176, 202-206, 234-238).\<close>

definition metric_options :: "string list" where
  "metric_options =
     [''AI Adoption Rate (%)'', ''Job Loss Due to AI (%)'', ''Revenue Increase Due to AI (%)'',
      ''Human-AI Collaboration Rate (%)'', ''Consumer Trust in AI (%)'']"

text \<open>The grouping choices of the trend tab (line 240).\<close>

definition group_options :: "string list" where
  "group_options = [''Country'', ''Industry'']"

text \<open>\<open>df[metric]\<close> with the chosen label; \<open>None\<close> indexes as the label \<open>None\<close>.\<close>

definition select_metric :: "nat option \<Rightarrow> df_error + numcol" where
  "select_metric st =
     (case selectbox metric_options st of
        None \<Rightarrow> Inl (KeyError ''None'')
      | Some m \<Rightarrow> df_column m)"

text \<open>\<open>groupby(['Year', group_by])\<close>: the key column named by the radio's choice.\<close>

definition key_column :: "string \<Rightarrow> df_error + (row \<Rightarrow> string)" where
  "key_column s =
     (if s = ''Country'' then Inr Country
      else if s = ''Industry'' then Inr Industry
      else Inl (KeyError s))"

subsection \<open>Widgets never raise\<close>

lemma selectbox_in: "selectbox opts st = Some x \<Longrightarrow> x \<in> set opts"
proof -
  assume sx: "selectbox opts st = Some x"
  let ?i = "case st of None \<Rightarrow> 0 | Some i \<Rightarrow> i"
  show ?thesis
  proof (cases "?i < length opts")
    case True
    with sx have "x = opts ! ?i" by (simp add: selectbox_def)
    with True show ?thesis by simp
  next
    case False
    with sx show ?thesis by (auto simp: selectbox_def split: list.splits)
  qed
qed

lemma selectbox_None_iff: "selectbox opts st = None \<longleftrightarrow> opts = []"
  by (auto simp: selectbox_def Let_def split: option.splits list.splits)

lemma selectbox_for_in: "selectbox_for opts st = Some x \<Longrightarrow> x \<in> set opts"
  unfolding selectbox_for_def by (rule selectbox_in)

lemma selectbox_for_None_iff: "selectbox_for opts st = None \<longleftrightarrow> opts = []"
  unfolding selectbox_for_def by (rule selectbox_None_iff)

lemma selectbox_Some_in:
  "opts \<noteq> [] \<Longrightarrow> \<exists>x. selectbox opts st = Some x \<and> x \<in> set opts"
  using selectbox_None_iff [of opts st] selectbox_in [of opts st] by fastforce

lemma metric_options_labels:
  "metric_options = map col_label [AdoptionC, JobLossC, RevenueC, CollabC, TrustC]"
  by (simp add: metric_options_def)
lemma metric_options_columns: "m \<in> set metric_options \<Longrightarrow> \<exists>c. df_column m = Inr c"
  unfolding metric_options_labels by (auto simp del: col_label.simps simp: df_column_label)

lemma metric_options_ne: "metric_options \<noteq> []"
  by (simp add: metric_options_def)

lemma group_options_ne: "group_options \<noteq> []"
  by (simp add: group_options_def)

lemma select_metric_Inr: "\<exists>c. select_metric st = Inr c"
proof -
  obtain m where m: "selectbox metric_options st = Some m" "m \<in> set metric_options"
    using selectbox_Some_in [OF metric_options_ne] by blast
  then obtain c where "df_column m = Inr c" using metric_options_columns by blast
  with m show ?thesis by (simp add: select_metric_def)
qed

lemma key_column_group_options: "g \<in> set group_options \<Longrightarrow> \<exists>k. key_column g = Inr k"
  unfolding group_options_def key_column_def by auto

end
