(* ===== verification/Format.thy ===== *)
theory Format
  imports Prelude
begin

text \<open>
  Python's formatting of the KPI values that \<open>st.metric\<close> shows in the overview tab
  of src/app2.py (lines 89-115): \<open>f"{x:.1f}"\<close> (one decimal, rounded half to even,
  the sign kept on a negative value that rounds to zero, \<open>nan\<close> for NaN),
  \<open>f"{x:,.0f}"\<close> (no decimal, thousands separated by commas) and \<open>str(n)\<close> for
  a count. The decimal digits come from the loops \<open>show_nat\<close> and \<open>show_grouped\<close>,
  which divide by 10 and 1000; their termination is proved on the domain predicates.
  The reference \<open>parse_number\<close> reads a displayed number back (Python's
  \<open>float(s.replace(',', ''))\<close>); the round trip shows that each string denotes
  its value to within the displayed precision.
\<close>

subsection \<open>Decimal digits\<close>

definition digit_char :: "nat \<Rightarrow> char" where
  "digit_char d = char_of (48 + d)"

function (domintros) show_nat :: "nat \<Rightarrow> string" where
  "show_nat n = (if n < 10 then [digit_char n] else show_nat (n div 10) @ [digit_char (n mod 10)])"
  by pat_completeness auto
termination by (relation "measure id") auto

definition pad3 :: "nat \<Rightarrow> string" where
  "pad3 m = [digit_char (m div 100), digit_char (m div 10 mod 10), digit_char (m mod 10)]"

function (domintros) show_grouped :: "nat \<Rightarrow> string" where
  "show_grouped n =
     (if n < 1000 then show_nat n else show_grouped (n div 1000) @ '','' @ pad3 (n mod 1000))"
  by pat_completeness auto
termination by (relation "measure id") auto

subsection \<open>Rounding and the format specifications\<close>

text \<open>
  Python formats the exact value and rounds ties to the even neighbour; with exact
  reals a tie is a value exactly halfway between two representable outputs.
\<close>

definition round_half_even :: "real \<Rightarrow> int" where
  "round_half_even x =
     (let f = \<lfloor>x\<rfloor>; d = x - of_int f in
      if d < 1/2 then f else if 1/2 < d then f + 1 else if even f then f else f + 1)"

definition sign_str :: "real \<Rightarrow> string" where
  "sign_str x = (if x < 0 then ''-'' else '''')"

definition fmt_1f :: "real \<Rightarrow> string" where
  "fmt_1f x =
     (let n = nat (round_half_even (\<bar>x\<bar> * 10)) in
      sign_str x @ show_nat (n div 10) @ ''.'' @ [digit_char (n mod 10)])"

definition fmt_grouped_0f :: "real \<Rightarrow> string" where
  "fmt_grouped_0f x = sign_str x @ show_grouped (nat (round_half_even \<bar>x\<bar>))"

definition fmt_cell_1f :: "cell \<Rightarrow> string" where
  "fmt_cell_1f c = (case c of None \<Rightarrow> ''nan'' | Some x \<Rightarrow> fmt_1f x)"

subsection \<open>Reading a displayed number back\<close>

definition is_digit :: "char \<Rightarrow> bool" where
  "is_digit c \<longleftrightarrow> CHR ''0'' \<le> c \<and> c \<le> CHR ''9''"

definition digits_val :: "string \<Rightarrow> nat" where
  "digits_val s = foldl (\<lambda>a c. 10 * a + (of_char c - 48)) 0 s"

definition parse_unsigned :: "string \<Rightarrow> real option" where
  "parse_unsigned t =
     (let u = filter (\<lambda>c. c \<noteq> CHR '','') t;
          ip = takeWhile (\<lambda>c. c \<noteq> CHR ''.'') u;
          rest = dropWhile (\<lambda>c. c \<noteq> CHR ''.'') u;
          fp = drop 1 rest
      in if ip = [] \<or> \<not> list_all is_digit ip \<or> \<not> list_all is_digit fp \<or> (rest \<noteq> [] \<and> fp = []) then None
         else Some (real (digits_val ip) + real (digits_val fp) / 10 ^ length fp))"

definition parse_number :: "string \<Rightarrow> real option" where
  "parse_number s =
     (case s of
        [] \<Rightarrow> None
      | c # t \<Rightarrow> if c = CHR ''-'' then map_option uminus (parse_unsigned t) else parse_unsigned s)"

subsection \<open>Digits and parsing\<close>

declare show_nat.simps [simp del] show_grouped.simps [simp del]

lemma digit_char_props: "d < 10 \<Longrightarrow> is_digit (digit_char d) \<and> of_char (digit_char d) - 48 = d"
  by (auto simp: digit_char_def is_digit_def less_eq_char_def)

lemma digit_char_0: "digit_char 0 = CHR ''0''"
  by (simp add: digit_char_def char_of_def bit_0)

lemma digits_val_append: "digits_val (a @ b) = digits_val a * 10 ^ length b + digits_val b"
proof (induction b rule: rev_induct)
  case (snoc c b)
  then show ?case by (simp add: digits_val_def algebra_simps)
qed (simp add: digits_val_def)

lemma digits_val_Nil [simp]: "digits_val [] = 0"
  by (simp add: digits_val_def)

lemma digits_val_single [simp]: "digits_val [c] = of_char c - 48"
  by (simp add: digits_val_def)

lemma show_nat_props:
  "show_nat n \<noteq> [] \<and> list_all is_digit (show_nat n) \<and> digits_val (show_nat n) = n"
proof (induction n rule: show_nat.induct)
  case (1 n)
  show ?case
  proof (cases "n < 10")
    case True
    then show ?thesis using digit_char_props [of n] by (simp add: show_nat.simps digits_val_def)
  next
    case False
    then show ?thesis using 1 digit_char_props [of "n mod 10"]
      by (simp add: show_nat.simps [of n] digits_val_append)
  qed
qed

lemma is_digit_punct: "is_digit c \<Longrightarrow> c \<noteq> CHR ''-'' \<and> c \<noteq> CHR ''.'' \<and> c \<noteq> CHR '',''"
  by (auto simp: is_digit_def less_eq_char_def)

lemma pad3_props:
  assumes "m < 1000"
  shows "list_all is_digit (pad3 m) \<and> digits_val (pad3 m) = m \<and> length (pad3 m) = 3"
proof -
  have a: "m div 100 < 10" using assms by simp
  have v: "(m div 100 * 10 + m div 10 mod 10) * 10 + m mod 10 = m"
  proof -
    have "m div 100 = m div 10 div 10" by (simp add: div_mult2_eq [symmetric])
    then show ?thesis
      using div_mult_mod_eq [of m 10] div_mult_mod_eq [of "m div 10" 10] by (simp add: algebra_simps)
  qed
  show ?thesis
    using digit_char_props [OF a] digit_char_props [of "m div 10 mod 10"] digit_char_props [of "m mod 10"] v
    by (simp add: pad3_def digits_val_def)
qed

lemma show_grouped_props:
  "show_grouped n \<noteq> [] \<and> is_digit (hd (show_grouped n)) \<and> CHR ''.'' \<notin> set (show_grouped n) \<and>
   list_all is_digit (filter (\<lambda>c. c \<noteq> CHR '','') (show_grouped n)) \<and>
   digits_val (filter (\<lambda>c. c \<noteq> CHR '','') (show_grouped n)) = n"
proof (induction n rule: show_grouped.induct)
  case (1 n)
  show ?case
  proof (cases "n < 1000")
    case True
    have "filter (\<lambda>c. c \<noteq> CHR '','') (show_nat n) = show_nat n"
      using show_nat_props [of n] is_digit_punct by (auto simp: list_all_iff intro!: filter_True)
    moreover have "is_digit (hd (show_nat n))" using show_nat_props [of n] by (cases "show_nat n") auto
    moreover have "CHR ''.'' \<notin> set (show_nat n)" using show_nat_props [of n] is_digit_punct by (auto simp: list_all_iff)
    ultimately show ?thesis using True show_nat_props [of n] by (simp add: show_grouped.simps [of n])
  next
    case False
    have m: "n mod 1000 < 1000" by simp
    have f: "filter (\<lambda>c. c \<noteq> CHR '','') (pad3 (n mod 1000)) = pad3 (n mod 1000)"
      using pad3_props [OF m] is_digit_punct by (auto simp: list_all_iff intro!: filter_True)
    have d: "CHR ''.'' \<notin> set (pad3 (n mod 1000))"
      using pad3_props [OF m] is_digit_punct by (auto simp: list_all_iff)
    have "n div 1000 * 1000 + n mod 1000 = n" by simp
    then show ?thesis using False 1 pad3_props [OF m] f d
      by (simp add: show_grouped.simps [of n] digits_val_append)
  qed
qed

subsection \<open>The digit loops terminate\<close>

lemma round_half_even_bound: "\<bar>real_of_int (round_half_even x) - x\<bar> \<le> 1/2"
proof -
  have "of_int \<lfloor>x\<rfloor> \<le> x" "x < of_int \<lfloor>x\<rfloor> + 1" by linarith+
  then show ?thesis by (auto simp: round_half_even_def Let_def)
qed

lemma round_half_even_nonneg: "0 \<le> x \<Longrightarrow> 0 \<le> round_half_even x"
  by (auto simp: round_half_even_def Let_def)

lemma parse_signed:
  assumes "s = c # s'" "c \<noteq> CHR ''-''"
  shows "parse_number (sign_str x @ s) = map_option (\<lambda>v. if x < 0 then - v else v) (parse_unsigned s)"
  using assms by (cases "x < 0") (simp_all add: parse_number_def sign_str_def option.map_ident)

lemma parse_fixed:
  assumes "ip \<noteq> []" "list_all is_digit ip" "list_all is_digit fp" "fp \<noteq> []"
  shows "parse_number (sign_str x @ ip @ CHR ''.'' # fp) =
    Some (let v = real (digits_val ip) + real (digits_val fp) / 10 ^ length fp in if x < 0 then - v else v)"
proof -
  obtain c ip' where ip: "ip = c # ip'" using assms(1) by (cases ip) auto
  have nd: "\<forall>d \<in> set ip. d \<noteq> CHR ''.'' \<and> d \<noteq> CHR '',''" "\<forall>d \<in> set fp. d \<noteq> CHR '',''"
    using assms(2,3) is_digit_punct by (auto simp: list_all_iff)
  then have u: "filter (\<lambda>c. c \<noteq> CHR '','') (ip @ CHR ''.'' # fp) = ip @ CHR ''.'' # fp"
    by (auto intro!: filter_True)
  have t: "takeWhile (\<lambda>c. c \<noteq> CHR ''.'') (ip @ CHR ''.'' # fp) = ip"
    and d: "dropWhile (\<lambda>c. c \<noteq> CHR ''.'') (ip @ CHR ''.'' # fp) = CHR ''.'' # fp"
    using nd by (simp_all add: takeWhile_append2 dropWhile_append2)
  have c: "c \<noteq> CHR ''-''" using assms(2) ip is_digit_punct by simp
  have "parse_unsigned (ip @ CHR ''.'' # fp) =
      Some (real (digits_val ip) + real (digits_val fp) / 10 ^ length fp)"
    unfolding parse_unsigned_def Let_def u t d using assms by simp
  then show ?thesis using parse_signed [of "ip @ CHR ''.'' # fp" c "ip' @ CHR ''.'' # fp" x] c ip
    by (simp add: Let_def)
qed

lemma parse_grouped:
  assumes "g \<noteq> []" "is_digit (hd g)" "CHR ''.'' \<notin> set g"
    and "list_all is_digit (filter (\<lambda>c. c \<noteq> CHR '','') g)"
  shows "parse_number (sign_str x @ g) =
    Some (if x < 0 then - real (digits_val (filter (\<lambda>c. c \<noteq> CHR '','') g))
          else real (digits_val (filter (\<lambda>c. c \<noteq> CHR '','') g)))"
proof -
  obtain c g' where g: "g = c # g'" using assms(1) by (cases g) auto
  have c: "c \<noteq> CHR ''-''" "c \<noteq> CHR '',''" using assms(2) g is_digit_punct by simp_all
  have "\<forall>d \<in> set (filter (\<lambda>c. c \<noteq> CHR '','') g). d \<noteq> CHR ''.''" using assms(3) by auto
  then have t: "takeWhile (\<lambda>c. c \<noteq> CHR ''.'') (filter (\<lambda>c. c \<noteq> CHR '','') g) = filter (\<lambda>c. c \<noteq> CHR '','') g"
    and d: "dropWhile (\<lambda>c. c \<noteq> CHR ''.'') (filter (\<lambda>c. c \<noteq> CHR '','') g) = []"
    by (simp_all add: takeWhile_eq_all_conv dropWhile_eq_Nil_conv)
  have ne: "filter (\<lambda>c. c \<noteq> CHR '','') g \<noteq> []" using g c by simp
  have "parse_unsigned g = Some (real (digits_val (filter (\<lambda>c. c \<noteq> CHR '','') g)))"
    unfolding parse_unsigned_def Let_def t d using assms(4) ne by simp
  then show ?thesis using parse_signed [OF g c(1), of x] by simp
qed

lemma signed_dist: "\<bar>(if x < 0 then - a else a) - x\<bar> = \<bar>a - \<bar>x\<bar>\<bar>" for a x :: real
  by (cases "x < 0") (simp_all add: abs_if)

text \<open>
  C11. Round trip with bounds: reading back what \<open>.1f\<close> displays gives the value to within
  0.05, and reading back what \<open>,.0f\<close> displays (commas dropped) gives it to within 0.5.
\<close>

theorem kpi_format_roundtrip:
  "(\<exists>y. parse_number (fmt_1f x) = Some y \<and> \<bar>y - x\<bar> \<le> 1/20) \<and>
   (\<exists>z. parse_number (fmt_grouped_0f x) = Some z \<and> \<bar>z - x\<bar> \<le> 1/2)"
proof
  let ?r = "round_half_even (\<bar>x\<bar> * 10)"
  let ?n = "nat ?r"
  have rn: "real ?n = real_of_int ?r" using round_half_even_nonneg [of "\<bar>x\<bar> * 10"] by simp
  have m: "?n mod 10 < 10" by simp
  have v: "real (digits_val (show_nat (?n div 10))) + real (digits_val [digit_char (?n mod 10)]) / 10 ^ length [digit_char (?n mod 10)]
      = real ?n / 10"
  proof -
    have "real (?n div 10) * 10 + real (?n mod 10) = real ?n"
      using div_mult_mod_eq [of ?n 10] by (metis of_nat_add of_nat_mult of_nat_numeral)
    then have "real (?n div 10) + real (?n mod 10) / 10 = real ?n / 10" by (simp add: field_simps)
    then show ?thesis using show_nat_props [of "?n div 10"] digit_char_props [OF m] by simp
  qed
  have b: "\<bar>real ?n / 10 - \<bar>x\<bar>\<bar> \<le> 1/20"
    using round_half_even_bound [of "\<bar>x\<bar> * 10"] rn by (simp add: abs_le_iff field_simps)
  have ds: "show_nat (?n div 10) \<noteq> []" "list_all is_digit (show_nat (?n div 10))"
    "list_all is_digit [digit_char (?n mod 10)]" "[digit_char (?n mod 10)] \<noteq> []"
    using show_nat_props [of "?n div 10"] digit_char_props [OF m] by simp_all
  have "parse_number (sign_str x @ show_nat (?n div 10) @ CHR ''.'' # [digit_char (?n mod 10)]) =
      Some (if x < 0 then - (real ?n / 10) else real ?n / 10)"
    using parse_fixed [OF ds, of x] unfolding Let_def v .
  then have p: "parse_number (fmt_1f x) = Some (if x < 0 then - (real ?n / 10) else real ?n / 10)"
    by (simp only: fmt_1f_def Let_def append.simps)
  note signed_dist [of x "real ?n / 10"]
  then show "\<exists>y. parse_number (fmt_1f x) = Some y \<and> \<bar>y - x\<bar> \<le> 1/20"
    using p b by (simp only:) auto
next
  let ?r = "round_half_even \<bar>x\<bar>"
  let ?n = "nat ?r"
  have rn: "real ?n = real_of_int ?r" using round_half_even_nonneg [of "\<bar>x\<bar>"] by simp
  have b: "\<bar>real ?n - \<bar>x\<bar>\<bar> \<le> 1/2" using round_half_even_bound [of "\<bar>x\<bar>"] rn by simp
  have p: "parse_number (fmt_grouped_0f x) = Some (if x < 0 then - real ?n else real ?n)"
  proof -
    note g = show_grouped_props [of ?n]
    have "parse_number (sign_str x @ show_grouped ?n) =
        Some (if x < 0 then - real (digits_val (filter (\<lambda>c. c \<noteq> CHR '','') (show_grouped ?n)))
              else real (digits_val (filter (\<lambda>c. c \<noteq> CHR '','') (show_grouped ?n))))"
      using g by (intro parse_grouped) simp_all
    then show ?thesis unfolding fmt_grouped_0f_def using g by (simp only:)
  qed
  note signed_dist [of x "real ?n"]
  then show "\<exists>z. parse_number (fmt_grouped_0f x) = Some z \<and> \<bar>z - x\<bar> \<le> 1/2"
    using p b by (simp only:) auto
qed

end
