(* ===== verification/Dashboard.thy ===== *)
theory Dashboard
  imports Filters Aggregation Widgets Format
begin

text \<open>
  The tables the first four tabs of src/app2.py compute from the filtered frame
  (lines 82-241) and the tool counts of the fifth (lines 277-299, 355-367): KPIs,
  grouped means, sorted comparison tables, trend lines, and the tool pies' data.
  Rendering calls (\<open>px.*\<close>, \<open>st.metric\<close>, \<open>st_pyecharts\<close>) are the boundary:
  the model computes the tables handed to them.
\<close>

subsection \<open>Tab 1: overview\<close>

record kpis =
  avg_adoption :: cell
  avg_job_loss :: cell
  avg_revenue :: cell
  avg_trust :: cell
  total_content :: real
  avg_collab :: cell
  num_countries :: nat
  num_industries :: nat

text \<open>Lines 85-115: the eight KPI values.\<close>

definition overview_kpis :: "frame \<Rightarrow> kpis" where
  "overview_kpis fdf =
     \<lparr>avg_adoption = series_mean (map adoption_rate fdf),
      avg_job_loss = series_mean (map job_loss fdf),
      avg_revenue = series_mean (map revenue_increase fdf),
      avg_trust = series_mean (map consumer_trust fdf),
      total_content = series_sum (map content_volume fdf),
      avg_collab = series_mean (map collaboration_rate fdf),
      num_countries = nunique (map Country fdf),
      num_industries = nunique (map Industry fdf)\<rparr>"

text \<open>
  Lines 86-115: the eight \<open>st.metric(label, value)\<close> cards in script order, each
  value as the f-string or \<open>str\<close> the script passes.
\<close>

definition overview_metrics :: "kpis \<Rightarrow> (string \<times> string) list" where
  "overview_metrics k =
     [(''Average AI Adoption'', fmt_cell_1f (avg_adoption k) @ ''%''),
      (''Average Job Impact'', fmt_cell_1f (avg_job_loss k) @ ''%''),
      (''Average Revenue Impact'', fmt_cell_1f (avg_revenue k) @ ''%''),
      (''Average Consumer Trust'', fmt_cell_1f (avg_trust k) @ ''%''),
      (''Total AI Content Volume'', fmt_grouped_0f (total_content k) @ '' TB/year''),
      (''Avg Collaboration Rate'', fmt_cell_1f (avg_collab k) @ ''%''),
      (''Countries Covered'', show_nat (num_countries k)),
      (''Industries Covered'', show_nat (num_industries k))]"

subsection \<open>Tabs 2 and 3: geography and industries\<close>

text \<open>
  Line 150: the mean of every numeric column per country, the columns in
  \<open>numeric_cols\<close> order.
\<close>

definition country_means :: "frame \<Rightarrow> (string \<times> cell list) list" where
  "country_means fdf =
     groupby_agg Country (\<lambda>g. map (\<lambda>c. series_mean (map (numval c) g)) numeric_cols) fdf"

text \<open>Lines 163-164: mean content volume per country, largest first.\<close>

definition content_by_country :: "frame \<Rightarrow> (string \<times> cell) list" where
  "content_by_country fdf = sort_values_desc (groupby_mean Country content_volume fdf)"

text \<open>
  Lines 171-179 (by Country) and 201-209 (by Industry): the chosen metric's mean per
  group, largest first.
\<close>

definition compare_by :: "(row \<Rightarrow> string) \<Rightarrow> nat option \<Rightarrow> frame \<Rightarrow> df_error + (string \<times> cell) list" where
  "compare_by key st fdf =
     (case select_metric st of
        Inl e \<Rightarrow> Inl e
      | Inr c \<Rightarrow> Inr (sort_values_desc (groupby_mean key (numval c) fdf)))"

subsection \<open>Tab 4: trends\<close>

text \<open>
  Lines 218 and 225: \<open>groupby(['Year', key])[col].mean()\<close>, one point per year and
  category, ordered by year and then category.
\<close>

definition trend_by :: "(row \<Rightarrow> string) \<Rightarrow> (row \<Rightarrow> cell) \<Rightarrow> frame \<Rightarrow> ((int \<times> string) \<times> cell) list" where
  "trend_by key col fdf = groupby_mean (\<lambda>r. (Year r, key r)) col fdf"

text \<open>Lines 233-241: the chosen metric over time, grouped as the radio says.\<close>

definition time_trend :: "nat option \<Rightarrow> nat option \<Rightarrow> frame \<Rightarrow> df_error + ((int \<times> string) \<times> cell) list" where
  "time_trend mst gst fdf =
     (case select_metric mst of
        Inl e \<Rightarrow> Inl e
      | Inr c \<Rightarrow>
          (case selectbox group_options gst of
             None \<Rightarrow> Inl (KeyError ''None'')
           | Some g \<Rightarrow>
               (case key_column g of
                  Inl e \<Rightarrow> Inl e
                | Inr k \<Rightarrow> Inr (trend_by k (numval c) fdf))))"

subsection \<open>Tab 5: tools\<close>

text \<open>Lines 277-278: rows per tool over the filtered frame, most used first.\<close>

definition tool_counts :: "frame \<Rightarrow> (string \<times> nat) list" where
  "tool_counts fdf = value_counts (map top_tools fdf)"

text \<open>
  Lines 288-299 (by Industry) and 342-353 (by Country): a selectbox over the
  categories of the filtered frame in order of first appearance (\<open>unique()\<close>),
  the rows of the chosen category (\<open>== None\<close> matches no row), and their tool
  counts as the pie's (name, value) pairs.
\<close>

definition tools_in :: "(row \<Rightarrow> string) \<Rightarrow> (string list \<times> nat) option \<Rightarrow> frame \<Rightarrow> string option \<times> (string \<times> nat) list" where
  "tools_in key st fdf =
     (let selected = selectbox_for (pd_unique (map key fdf)) st;
          rows = filter (\<lambda>r. Some (key r) = selected) fdf
      in (selected, value_counts (map top_tools rows)))"

subsection \<open>The trend widgets never raise\<close>

lemma time_trend_Inr:
  "select_metric mst = Inr c \<Longrightarrow> \<exists>k. time_trend mst gst fdf = Inr (trend_by k (numval c) fdf)"
proof -
  assume c: "select_metric mst = Inr c"
  obtain g where g: "selectbox group_options gst = Some g" "g \<in> set group_options"
    using selectbox_Some_in [OF group_options_ne] by blast
  then obtain k where "key_column g = Inr k" using key_column_group_options by blast
  with c g have "time_trend mst gst fdf = Inr (trend_by k (numval c) fdf)"
    by (simp add: time_trend_def)
  then show ?thesis by blast
qed

subsection \<open>Tables on an empty view\<close>

lemma tables_Nil [df_simps]:
  "overview_kpis [] =
     \<lparr>avg_adoption = None, avg_job_loss = None, avg_revenue = None, avg_trust = None,
      total_content = 0, avg_collab = None, num_countries = 0, num_industries = 0\<rparr>"
  "country_means [] = []" "content_by_country [] = []" "trend_by k col [] = []"
  "tool_counts [] = []" "tools_in k st [] = (None, [])"
  "compare_by k mst [] = map_sum id (\<lambda>_. []) (select_metric mst)"
  by (simp_all add: overview_kpis_def series_unfold nunique_def country_means_def groupby_agg_def
      content_by_country_def groupby_mean_def sort_values_desc_def trend_by_def tool_counts_def
      value_counts_def tools_in_def selectbox_for_def selectbox_def compare_by_def split: sum.split)

lemma time_trend_Nil [df_simps]:
  "select_metric mst = Inr c \<Longrightarrow> time_trend mst gst [] = Inr []"
  using time_trend_Inr [of mst c gst "[]"] by (auto simp: df_simps)

text \<open>The overview cards of an empty view.\<close>

lemma overview_metrics_Nil:
  "overview_metrics (overview_kpis []) =
     [(''Average AI Adoption'', ''nan%''), (''Average Job Impact'', ''nan%''),
      (''Average Revenue Impact'', ''nan%''), (''Average Consumer Trust'', ''nan%''),
      (''Total AI Content Volume'', ''0 TB/year''), (''Avg Collaboration Rate'', ''nan%''),
      (''Countries Covered'', ''0''), (''Industries Covered'', ''0'')]"
  by (simp add: df_simps overview_metrics_def fmt_cell_1f_def fmt_grouped_0f_def sign_str_def
      round_half_even_def show_grouped.simps [of 0] show_nat.simps [of 0] digit_char_0)

subsection \<open>Properties of the tabs\<close>

text \<open>
  C15. The coverage KPIs count the distinct countries and industries of the view,
  never more than the user selected.
\<close>

theorem overview_coverage:
  "num_countries (overview_kpis (filter_df df s)) = card (Country ` set (filter_df df s)) \<and>
   num_countries (overview_kpis (filter_df df s)) \<le> card (set (sel_countries s)) \<and>
   num_industries (overview_kpis (filter_df df s)) = card (Industry ` set (filter_df df s)) \<and>
   num_industries (overview_kpis (filter_df df s)) \<le> card (set (sel_industries s))"
proof -
  have c: "Country ` set (filter_df df s) \<subseteq> set (sel_countries s)"
    and i: "Industry ` set (filter_df df s) \<subseteq> set (sel_industries s)"
    by (auto simp: filter_df_def row_selected_def)
  show ?thesis
    using card_mono [OF _ c] card_mono [OF _ i]
    by (simp add: overview_kpis_def nunique_set)
qed

text \<open>
  C16. The comparison bar charts (by country, by industry) show every group of the
  view once with the mean of the chosen metric, largest first and NaN last.
\<close>

theorem compare_by_correct:
  "\<exists>c xs. select_metric st = Inr c \<and> compare_by key st fdf = Inr xs \<and>
     mset xs = mset (groupby_mean key (numval c) fdf) \<and> sorted_wrt cell_ge (map snd xs)"
proof -
  obtain c where "select_metric st = Inr c" using select_metric_Inr by blast
  then show ?thesis
    by (simp add: compare_by_def mset_sort_values_desc sorted_sort_values_desc)
qed

lemma sorted_fst_of_strict_pairs:
  "sorted_wrt (<) (xs :: ('a :: linorder \<times> 'b :: linorder) list) \<Longrightarrow> sorted (map fst xs)"
proof -
  assume "sorted_wrt (<) xs"
  then have "sorted_wrt (\<lambda>x y. fst x \<le> fst y) xs"
    by (rule sorted_wrt_mono_rel [rotated]) (auto simp: less_prod_def)
  then show ?thesis by (simp add: sorted_wrt_map)
qed

text \<open>
  C17. A trend line's points are the (year, category) pairs of the view, each once,
  ordered by year and then by category: ascending in time.
\<close>

theorem trend_by_order:
  "sorted_wrt (<) (map fst (trend_by key col fdf)) \<and>
   set (map fst (trend_by key col fdf)) = (\<lambda>r. (Year r, key r)) ` set fdf \<and>
   sorted (map (\<lambda>p. fst (fst p)) (trend_by key col fdf))"
proof -
  have k: "map fst (trend_by key col fdf) = sort (remdups (map (\<lambda>r. (Year r, key r)) fdf))"
    by (simp add: trend_by_def groupby_mean_def groupby_agg_keys)
  have "sorted (map fst (map fst (trend_by key col fdf)))"
    unfolding k by (rule sorted_fst_of_strict_pairs) simp
  then have "sorted (map (\<lambda>p. fst (fst p)) (trend_by key col fdf))"
    by (simp add: comp_def)
  then show ?thesis by (simp add: k)
qed

text \<open>
  C18. The tool pie of a category: no category is chosen only when the view is empty;
  otherwise the chosen category occurs in the view, the pie's counts add up to its
  rows, and each tool's count is the number of those rows using it.
\<close>

theorem tools_in_pie:
  assumes "tools_in key st fdf = (sel, pie)"
  shows "(sel = None \<longleftrightarrow> fdf = []) \<and>
    (\<forall>k. sel = Some k \<longrightarrow> k \<in> key ` set fdf \<and>
        sum_list (map snd pie) = length (filter (\<lambda>r. key r = k) fdf) \<and>
        (\<forall>(tool, n) \<in> set pie. n = count_list (map top_tools (filter (\<lambda>r. key r = k) fdf)) tool))"
proof -
  have sel: "sel = selectbox_for (pd_unique (map key fdf)) st"
    and pie: "pie = value_counts (map top_tools (filter (\<lambda>r. Some (key r) = sel) fdf))"
    using assms by (auto simp: tools_in_def Let_def)
  have none: "sel = None \<longleftrightarrow> fdf = []" by (simp add: sel selectbox_for_None_iff)
  have "k \<in> key ` set fdf \<and> sum_list (map snd pie) = length (filter (\<lambda>r. key r = k) fdf) \<and>
        (\<forall>(tool, n) \<in> set pie. n = count_list (map top_tools (filter (\<lambda>r. key r = k) fdf)) tool)"
    if k: "sel = Some k" for k
  proof -
    have "k \<in> set (pd_unique (map key fdf))" using k sel selectbox_for_in by metis
    moreover have "pie = value_counts (map top_tools (filter (\<lambda>r. key r = k) fdf))"
      using pie k by simp
    ultimately show ?thesis
      by (auto simp: sum_value_counts dest: value_counts_in)
  qed
  with none show ?thesis by blast
qed

lemma map_of_content_by_country:
  "c \<in> Country ` set fdf \<Longrightarrow>
   map_of (content_by_country fdf) c = Some (series_mean (map content_volume (filter (\<lambda>r. Country r = c) fdf)))"
  by (simp add: content_by_country_def groupby_mean_def map_of_sort_values_desc groupby_agg_lookup)

text \<open>
  C21. The "AI-Generated Content Volume by Country" bar chart (line 163) shows, for
  each country of the view, the mean of its rows' content volumes, and so not their
  total whenever the country has two or more volumes with a non-zero sum.
\<close>

theorem volume_by_country_is_mean:
  assumes "c \<in> Country ` set fdf"
  shows "map_of (content_by_country fdf) c =
           Some (series_mean (map content_volume (filter (\<lambda>r. Country r = c) fdf))) \<and>
    (2 \<le> length (dropna (map content_volume (filter (\<lambda>r. Country r = c) fdf))) \<and>
     series_sum (map content_volume (filter (\<lambda>r. Country r = c) fdf)) \<noteq> 0 \<longrightarrow>
     map_of (content_by_country fdf) c \<noteq>
       Some (Some (series_sum (map content_volume (filter (\<lambda>r. Country r = c) fdf)))))"
  using map_of_content_by_country [OF assms] series_mean_ne_sum by simp

lemma tools_in_default: "fdf \<noteq> [] \<Longrightarrow> fst (tools_in key None fdf) = Some (key (hd fdf))"
  by (cases fdf) (simp_all add: tools_in_def selectbox_for_def selectbox_def Let_def hd_pd_unique)

subsection \<open>Row order\<close>

text \<open>
  The option lists and the selection depend only on the set of values of each key
  column; each KPI and grouped table depends only on the multiset of rows of the view.
\<close>

lemma sidebar_perm: "set df = set df' \<Longrightarrow> sidebar df w = sidebar df' w"
  by (simp add: sidebar_unfold unique_sorted_def sort_remdups_set_eq [of "map Year df" "map Year df'"]
      sort_remdups_set_eq [of "map Country df" "map Country df'"]
      sort_remdups_set_eq [of "map Industry df" "map Industry df'"])

lemma sidebar_options_perm: "set df = set df' \<Longrightarrow> sidebar_options df = sidebar_options df'"
  by (simp add: sidebar_options_def unique_sorted_def sort_remdups_set_eq [of "map Year df" "map Year df'"]
      sort_remdups_set_eq [of "map Country df" "map Country df'"]
      sort_remdups_set_eq [of "map Industry df" "map Industry df'"])

lemma series_sum_perm [perm_rules]: "mset xs = mset ys \<Longrightarrow> series_sum xs = series_sum ys"
  unfolding series_sum_def by (intro sum_list_mset_cong mset_dropna_cong)

lemma nunique_perm [perm_rules]: "mset xs = mset ys \<Longrightarrow> nunique xs = nunique ys"
  unfolding nunique_set by (metis set_mset_cong)

lemma overview_kpis_perm:
  assumes t: "mset t = mset t'"
  shows "overview_kpis t = overview_kpis t'"
  unfolding overview_kpis_def
  by (simp add: series_mean_perm [OF mset_map_cong [OF t]] series_sum_perm [OF mset_map_cong [OF t]]
      nunique_perm [OF mset_map_cong [OF t]])

lemma country_means_perm: "mset t = mset t' \<Longrightarrow> country_means t = country_means t'"
  unfolding country_means_def
  by (rule groupby_agg_perm) (auto intro!: series_mean_perm mset_map_cong)

lemma content_by_country_perm: "mset t = mset t' \<Longrightarrow> content_by_country t = content_by_country t'"
  unfolding content_by_country_def by (simp add: groupby_mean_perm [of t t'])

lemma compare_by_perm: "mset t = mset t' \<Longrightarrow> compare_by key st t = compare_by key st t'"
  unfolding compare_by_def by (simp add: groupby_mean_perm [of t t'] split: sum.split)

lemma trend_by_perm: "mset t = mset t' \<Longrightarrow> trend_by key col t = trend_by key col t'"
  unfolding trend_by_def by (simp add: groupby_mean_perm [of t t'])

lemma time_trend_perm: "mset t = mset t' \<Longrightarrow> time_trend mst gst t = time_trend mst gst t'"
  unfolding time_trend_def by (simp add: trend_by_perm [of t t'] split: sum.split option.split)

end
