(* ===== verification/Correlation.thy ===== *)
theory Correlation
  imports Aggregation Dataset
begin

text \<open>
  The correlation heatmap of src/app2.py (lines 411-414):
  \<open>filtered_df[numeric_cols].corr()\<close>, which pandas computes column pair by column
  pair over the rows where both cells are present, with Welford's streaming update of
  the means and co-moments (pandas' \<open>nancorr\<close>, \<open>min_periods\<close> = 1), and writes each
  value to both \<open>result[xi, yi]\<close> and \<open>result[yi, xi]\<close>. The reference definition is
  the two-pass Pearson correlation \<open>pearson\<close>; the lemmas show that the streaming
  computation equals it (in exact arithmetic), that every entry is NaN or lies in
  [-1, 1] (Cauchy-Schwarz on lists), what the diagonal holds, and that the matrix
  does not depend on the order of the rows.
\<close>

subsection \<open>Welford's streaming moments\<close>

text \<open>
  The accumulators of one column pair: the number of complete rows, the running
  means, the sums of squared deviations and the co-moment. \<open>welford_step\<close> is the
  loop body of \<open>nancorr\<close> for one complete row \<open>(vx, vy)\<close>, in the order pandas
  updates the variables.
\<close>

record moments =
  nobs :: nat
  meanx :: real
  meany :: real
  ssqdmx :: real
  ssqdmy :: real
  covxy :: real

definition moments0 :: moments where
  "moments0 = \<lparr>nobs = 0, meanx = 0, meany = 0, ssqdmx = 0, ssqdmy = 0, covxy = 0\<rparr>"

definition welford_step :: "moments \<Rightarrow> real \<times> real \<Rightarrow> moments" where
  "welford_step m p =
     (let vx = fst p; vy = snd p;
          n = nobs m + 1;
          dx = vx - meanx m; dy = vy - meany m;
          mx = meanx m + 1 / real n * dx; my = meany m + 1 / real n * dy
      in \<lparr>nobs = n, meanx = mx, meany = my,
          ssqdmx = ssqdmx m + (vx - mx) * dx, ssqdmy = ssqdmy m + (vy - my) * dy,
          covxy = covxy m + (vx - mx) * dy\<rparr>)"

definition welford :: "(real \<times> real) list \<Rightarrow> moments" where
  "welford ps = foldl welford_step moments0 ps"

text \<open>Raw sums: the closed form the streaming accumulators are compared with.\<close>

definition sx :: "(real \<times> real) list \<Rightarrow> real" where "sx ps = sum_list (map fst ps)"
definition sy :: "(real \<times> real) list \<Rightarrow> real" where "sy ps = sum_list (map snd ps)"
definition sxx :: "(real \<times> real) list \<Rightarrow> real" where "sxx ps = sum_list (map (\<lambda>p. fst p * fst p) ps)"
definition syy :: "(real \<times> real) list \<Rightarrow> real" where "syy ps = sum_list (map (\<lambda>p. snd p * snd p) ps)"
definition sxy :: "(real \<times> real) list \<Rightarrow> real" where "sxy ps = sum_list (map (\<lambda>p. fst p * snd p) ps)"

text \<open>
  One entry of the result: NaN when fewer than \<open>min_periods\<close> = 1 rows are complete
  or when a column is constant over them (zero divisor), else \<open>covxy / divisor\<close>.
\<close>

definition nancorr_entry :: "(real \<times> real) list \<Rightarrow> cell" where
  "nancorr_entry ps =
     (let m = welford ps in
      if nobs m < 1 then None
      else (let divisor = sqrt (ssqdmx m * ssqdmy m) in
            if divisor \<noteq> 0 then Some (covxy m / divisor) else None))"

subsection \<open>The reference: two-pass Pearson correlation\<close>

text \<open>Sum of the products of the deviations of two quantities from their means.\<close>

definition dev :: "('a \<Rightarrow> real) \<Rightarrow> ('a \<Rightarrow> real) \<Rightarrow> 'a list \<Rightarrow> real" where
  "dev f g ps =
     (let n = real (length ps); mf = sum_list (map f ps) / n; mg = sum_list (map g ps) / n
      in sum_list (map (\<lambda>p. (f p - mf) * (g p - mg)) ps))"

definition pearson :: "(real \<times> real) list \<Rightarrow> cell" where
  "pearson ps =
     (if ps = [] then None
      else (let vxy = dev fst snd ps; vxx = dev fst fst ps; vyy = dev snd snd ps in
            if vxx * vyy = 0 then None else Some (vxy / sqrt (vxx * vyy))))"

subsection \<open>The matrix\<close>

text \<open>The pairs of a column pair's cells on the rows where both are present (pandas' mask).\<close>

fun complete_pairs :: "(cell \<times> cell) list \<Rightarrow> (real \<times> real) list" where
  "complete_pairs [] = []"
| "complete_pairs ((Some x, Some y) # cs) = (x, y) # complete_pairs cs"
| "complete_pairs (_ # cs) = complete_pairs cs"

definition col_pairs :: "numcol \<Rightarrow> numcol \<Rightarrow> frame \<Rightarrow> (real \<times> real) list" where
  "col_pairs c d fdf = complete_pairs (map (\<lambda>r. (numval c r, numval d r)) fdf)"

text \<open>
  \<open>DataFrame.corr()\<close> on the columns \<open>cols\<close>: for \<open>xi\<close> and \<open>yi \<le> xi\<close> pandas
  computes the entry from columns \<open>xi\<close> (as x) and \<open>yi\<close> (as y) and stores it at both
  positions, so position (i, j) holds the entry computed with x = column max i j and
  y = column min i j.
\<close>

definition corr_matrix :: "numcol list \<Rightarrow> frame \<Rightarrow> cell list list" where
  "corr_matrix cols fdf =
     map (\<lambda>xi. map (\<lambda>yi. nancorr_entry (col_pairs (cols ! max xi yi) (cols ! min xi yi) fdf))
                   [0..<length cols])
         [0..<length cols]"

subsection \<open>The streaming computation equals the closed form\<close>

lemmas raw_sums = sx_def sy_def sxx_def syy_def sxy_def

lemma mean_step:
  assumes "0 < n" "m = n + 1"
  shows "S / n + 1 / m * (x - S / n) = (S + x) / (m :: real)"
proof -
  have nz: "n \<noteq> 0" "m \<noteq> 0" using assms by auto
  have e: "S * m + n * x - S = n * (S + x)" using assms(2) by (simp add: algebra_simps)
  have "S / n + 1 / m * (x - S / n) = (S * m + n * x - S) / (n * m)"
    using nz by (simp add: field_simps)
  then show ?thesis using e nz by simp
qed

lemma comoment_step:
  assumes "0 < n" "m = n + 1"
  shows "(P - S * T / n) + (x - (S + x) / m) * (y - T / n) = (P + x * y) - (S + x) * (T + y) / (m :: real)"
proof -
  have nz: "n \<noteq> 0" "m \<noteq> 0" using assms by auto
  have e: "x * y * n * m - n * (S + x) * (T + y) + S * T * m = (n * x - S) * (n * y - T)"
    using assms(2) by (simp add: algebra_simps)
  have "(x - (S + x) / m) * (y - T / n) = (n * x - S) * (n * y - T) / (n * m)"
    using nz assms(2) by (simp add: field_simps)
  moreover have "(P + x * y) - (S + x) * (T + y) / m - (P - S * T / n) =
      (x * y * n * m - n * (S + x) * (T + y) + S * T * m) / (n * m)"
    using nz by (simp add: field_simps)
  ultimately show ?thesis using e by simp
qed
lemma welford_snoc: "welford (ps @ [p]) = welford_step (welford ps) p"
  by (simp add: welford_def)

lemma welford_raw:
  "welford ps =
     \<lparr>nobs = length ps, meanx = sx ps / length ps, meany = sy ps / length ps,
      ssqdmx = sxx ps - sx ps * sx ps / length ps, ssqdmy = syy ps - sy ps * sy ps / length ps,
      covxy = sxy ps - sx ps * sy ps / length ps\<rparr>"
proof (induction ps rule: rev_induct)
  case Nil
  then show ?case by (simp add: welford_def moments0_def raw_sums)
next
  case (snoc p ps)
  obtain x y where p: "p = (x, y)" by fastforce
  show ?case
  proof (cases "ps = []")
    case True
    then show ?thesis by (simp add: welford_def moments0_def welford_step_def raw_sums p)
  next
    case False
    let ?n = "real (length ps)" and ?m = "real (length ps + 1)"
    have n: "0 < ?n" using False by simp
    have m: "?m = ?n + 1" by simp
    note mean = mean_step [OF n m] and com = comoment_step [OF n m]
    have "welford (ps @ [p]) =
       \<lparr>nobs = length ps + 1,
        meanx = sx ps / ?n + 1 / ?m * (x - sx ps / ?n), meany = sy ps / ?n + 1 / ?m * (y - sy ps / ?n),
        ssqdmx = (sxx ps - sx ps * sx ps / ?n) + (x - (sx ps / ?n + 1 / ?m * (x - sx ps / ?n))) * (x - sx ps / ?n),
        ssqdmy = (syy ps - sy ps * sy ps / ?n) + (y - (sy ps / ?n + 1 / ?m * (y - sy ps / ?n))) * (y - sy ps / ?n),
        covxy = (sxy ps - sx ps * sy ps / ?n) + (x - (sx ps / ?n + 1 / ?m * (x - sx ps / ?n))) * (y - sy ps / ?n)\<rparr>"
      unfolding welford_snoc snoc.IH by (simp only: welford_step_def Let_def p fst_conv snd_conv moments.simps)
    also have "\<dots> = \<lparr>nobs = length (ps @ [p]), meanx = sx (ps @ [p]) / length (ps @ [p]),
        meany = sy (ps @ [p]) / length (ps @ [p]),
        ssqdmx = sxx (ps @ [p]) - sx (ps @ [p]) * sx (ps @ [p]) / length (ps @ [p]),
        ssqdmy = syy (ps @ [p]) - sy (ps @ [p]) * sy (ps @ [p]) / length (ps @ [p]),
        covxy = sxy (ps @ [p]) - sx (ps @ [p]) * sy (ps @ [p]) / length (ps @ [p])\<rparr>"
      by (simp only: mean com) (simp add: raw_sums p)
    finally show ?thesis .
  qed
qed

lemma sum_list_centered:
  "sum_list (map (\<lambda>p. (f p - a) * (g p - b)) ps) =
   sum_list (map (\<lambda>p. f p * g p) ps) - a * sum_list (map g ps) - b * sum_list (map f ps) +
   real (length ps) * a * b"
  by (induction ps) (simp_all add: algebra_simps)

lemma dev_raw:
  "dev f g ps = sum_list (map (\<lambda>p. f p * g p) ps) -
     sum_list (map f ps) * sum_list (map g ps) / real (length ps)"
proof (cases "ps = []")
  case True
  then show ?thesis by (simp add: dev_def)
next
  case False
  then have "real (length ps) \<noteq> 0" by simp
  then show ?thesis unfolding dev_def Let_def sum_list_centered by (simp add: field_simps)
qed

text \<open>
  C25. Equivalence: the streaming computation of pandas gives the two-pass Pearson
  correlation on every list of complete pairs, the empty list and constant columns
  (NaN) included.
\<close>

theorem nancorr_entry_pearson: "nancorr_entry ps = pearson ps"
proof (cases "ps = []")
  case True
  then show ?thesis by (simp add: nancorr_entry_def pearson_def welford_raw)
next
  case False
  have "covxy (welford ps) = dev fst snd ps" "ssqdmx (welford ps) = dev fst fst ps"
    "ssqdmy (welford ps) = dev snd snd ps"
    by (simp_all add: welford_raw dev_raw raw_sums)
  moreover have "sqrt (dev fst fst ps * dev snd snd ps) \<noteq> 0 \<longleftrightarrow> dev fst fst ps * dev snd snd ps \<noteq> 0"
    by simp
  ultimately show ?thesis
    using False by (simp add: nancorr_entry_def pearson_def welford_raw Let_def)
qed

subsection \<open>Cauchy-Schwarz and the properties of Pearson's coefficient\<close>

lemma sum_list_sq_nonneg: "0 \<le> sum_list (map (\<lambda>p. f p * f p :: real) ps)"
  by (induction ps) (simp_all add: add_nonneg_nonneg)

lemma cauchy_schwarz_list:
  fixes f g :: "'a \<Rightarrow> real"
  shows "sum_list (map (\<lambda>p. f p * g p) ps) * sum_list (map (\<lambda>p. f p * g p) ps)
     \<le> sum_list (map (\<lambda>p. f p * f p) ps) * sum_list (map (\<lambda>p. g p * g p) ps)"
proof -
  let ?A = "sum_list (map (\<lambda>p. f p * f p) ps)" and ?B = "sum_list (map (\<lambda>p. g p * g p) ps)"
    and ?C = "sum_list (map (\<lambda>p. f p * g p) ps)"
  have q: "0 \<le> t * t * ?A - 2 * t * ?C + ?B" for t :: real
  proof -
    have "sum_list (map (\<lambda>p. (t * f p - g p) * (t * f p - g p)) ps) = t * t * ?A - 2 * t * ?C + ?B"
      by (induction ps) (simp_all add: algebra_simps)
    moreover have "0 \<le> sum_list (map (\<lambda>p. (t * f p - g p) * (t * f p - g p)) ps)"
      by (rule sum_list_sq_nonneg)
    ultimately show ?thesis by simp
  qed
  show ?thesis
  proof (cases "?A = 0")
    case True
    have "?C = 0"
    proof (rule ccontr)
      assume c: "?C \<noteq> 0"
      have "0 \<le> ((?B + 1) / (2 * ?C)) * ((?B + 1) / (2 * ?C)) * ?A - 2 * ((?B + 1) / (2 * ?C)) * ?C + ?B"
        by (rule q)
      with True c show False by simp
    qed
    with True show ?thesis by simp
  next
    case False
    then have a: "0 < ?A" using sum_list_sq_nonneg [of f ps] by simp
    have "0 \<le> (?C / ?A) * (?C / ?A) * ?A - 2 * (?C / ?A) * ?C + ?B" by (rule q)
    then have "0 \<le> ?B - ?C * ?C / ?A" using a by (simp add: field_simps power2_eq_square)
    then show ?thesis using a by (simp add: field_simps)
  qed
qed

subsection \<open>Complete pairs\<close>

lemma complete_pairs_swap:
  "complete_pairs (map prod.swap ps) = map prod.swap (complete_pairs ps)"
  by (induction ps rule: complete_pairs.induct) simp_all

lemma col_pairs_swap: "col_pairs cy cx fdf = map prod.swap (col_pairs cx cy fdf)"
  by (simp add: col_pairs_def flip: complete_pairs_swap) (simp add: o_def)

lemma dev_nonneg: "0 \<le> dev f f ps"
  unfolding dev_def Let_def by (rule sum_list_sq_nonneg)

lemma dev_cauchy_schwarz: "dev f g ps * dev f g ps \<le> dev f f ps * dev g g ps"
  unfolding dev_def Let_def by (rule cauchy_schwarz_list)

lemma dev_comm: "dev f g ps = dev g f ps"
  by (simp add: dev_raw mult.commute)

lemma dev_map: "dev f g (map h ps) = dev (f \<circ> h) (g \<circ> h) ps"
  by (simp add: dev_raw comp_def)

lemma sum_list_map_const:
  "(\<forall>p \<in> set ps. f p = c) \<Longrightarrow> sum_list (map f ps) = real (length ps) * c"
proof -
  assume "\<forall>p \<in> set ps. f p = c"
  then have "map f ps = replicate (length ps) c" by (induction ps) auto
  then show ?thesis by (simp add: sum_list_replicate)
qed

lemma dev_self_zero_iff: "dev f f ps = 0 \<longleftrightarrow> (\<forall>p \<in> set ps. \<forall>q \<in> set ps. f p = f q)"
proof -
  let ?m = "sum_list (map f ps) / real (length ps)"
  have d: "dev f f ps = sum_list (map (\<lambda>p. (f p - ?m) * (f p - ?m)) ps)"
    by (simp add: dev_def Let_def)
  have "dev f f ps = 0 \<longleftrightarrow> (\<forall>p \<in> set ps. (f p - ?m) * (f p - ?m) = 0)"
    unfolding d by (subst sum_list_nonneg_eq_0_iff) (auto simp del: mult_eq_0_iff)
  also have "\<dots> \<longleftrightarrow> (\<forall>p \<in> set ps. f p = ?m)"
    by (simp only: mult_eq_0_iff disj_absorb right_minus_eq)
  also have "\<dots> \<longleftrightarrow> (\<forall>p \<in> set ps. \<forall>q \<in> set ps. f p = f q)"
  proof
    assume "\<forall>p \<in> set ps. f p = ?m" then show "\<forall>p \<in> set ps. \<forall>q \<in> set ps. f p = f q" by metis
  next
    assume eq: "\<forall>p \<in> set ps. \<forall>q \<in> set ps. f p = f q"
    show "\<forall>p \<in> set ps. f p = ?m"
    proof
      fix p assume p: "p \<in> set ps"
      then have "sum_list (map f ps) = real (length ps) * f p"
        using eq p by (intro sum_list_map_const) blast
      moreover have "real (length ps) \<noteq> 0" using p by (cases ps) auto
      ultimately show "f p = ?m" by simp
    qed
  qed
  finally show ?thesis .
qed

lemma pearson_bounds: "pearson ps = Some r \<Longrightarrow> -1 \<le> r \<and> r \<le> 1"
proof -
  assume r: "pearson ps = Some r"
  let ?a = "dev fst snd ps" and ?d = "dev fst fst ps * dev snd snd ps"
  have d: "?d \<noteq> 0" and rv: "r = ?a / sqrt ?d"
    using r by (auto simp: pearson_def Let_def split: if_splits)
  have "0 \<le> ?d" using dev_nonneg [of fst ps] dev_nonneg [of snd ps] by simp
  then have pos: "0 < sqrt ?d" using d by (metis less_eq_real_def real_sqrt_gt_zero)
  have "\<bar>?a\<bar>\<^sup>2 \<le> ?d" using dev_cauchy_schwarz [of fst snd ps] by (simp add: power2_eq_square)
  then have "\<bar>?a\<bar> \<le> sqrt ?d" by (rule real_le_rsqrt)
  then have "\<bar>r\<bar> \<le> 1" using pos by (simp add: rv abs_divide)
  then show ?thesis by linarith
qed

lemma pearson_swap: "pearson (map prod.swap ps) = pearson ps"
proof -
  have "dev fst snd (map prod.swap ps) = dev fst snd ps"
    by (simp add: dev_map comp_def dev_comm [of snd])
  moreover have "dev fst fst (map prod.swap ps) = dev snd snd ps"
    and "dev snd snd (map prod.swap ps) = dev fst fst ps"
    by (simp_all add: dev_map comp_def)
  ultimately show ?thesis by (simp add: pearson_def Let_def mult.commute)
qed

lemma pearson_diag:
  "pearson (map (\<lambda>x. (x, x)) xs) = (if \<exists>x \<in> set xs. \<exists>y \<in> set xs. x \<noteq> y then Some 1 else None)"
proof -
  let ?D = "dev fst fst (map (\<lambda>x. (x, x)) xs)"
  have e: "dev fst snd (map (\<lambda>x. (x, x)) xs) = ?D" "dev snd snd (map (\<lambda>x. (x, x)) xs) = ?D"
    by (simp_all add: dev_map comp_def)
  have z: "?D = 0 \<longleftrightarrow> \<not> (\<exists>x \<in> set xs. \<exists>y \<in> set xs. x \<noteq> y)"
    by (simp add: dev_self_zero_iff)
  have "0 \<le> ?D" by (rule dev_nonneg)
  then show ?thesis using z by (auto simp: pearson_def Let_def e)
qed

subsection \<open>Properties of the heatmap\<close>

lemma complete_pairs_filter:
  "complete_pairs cs = map (\<lambda>c. (the (fst c), the (snd c))) (filter (\<lambda>c. fst c \<noteq> None \<and> snd c \<noteq> None) cs)"
  by (induction cs rule: complete_pairs.induct) simp_all

lemma complete_pairs_diag: "complete_pairs (map (\<lambda>c. (c, c)) cs) = map (\<lambda>x. (x, x)) (dropna cs)"
proof (induction cs)
  case (Cons c cs)
  then show ?case by (cases c) simp_all
qed simp

lemma col_pairs_diag: "col_pairs c c fdf = map (\<lambda>x. (x, x)) (dropna (map (numval c) fdf))"
  using complete_pairs_diag [of "map (numval c) fdf"] by (simp add: col_pairs_def comp_def)

lemma mset_col_pairs_cong [perm_rules]:
  "mset t = mset t' \<Longrightarrow> mset (col_pairs c d t) = mset (col_pairs c d t')"
  unfolding col_pairs_def complete_pairs_filter
  by (intro mset_map_cong mset_filter_cong) simp

lemma dev_perm: "mset ps = mset ps' \<Longrightarrow> dev f g ps = dev f g ps'"
proof -
  assume p: "mset ps = mset ps'"
  have "sum_list (map h ps) = sum_list (map h ps')" for h :: "'a \<Rightarrow> real"
    by (rule sum_list_mset_cong [OF mset_map_cong [OF p]])
  moreover have "length ps = length ps'" by (rule length_mset_cong [OF p])
  ultimately show ?thesis by (simp only: dev_raw)
qed

lemma pearson_perm [perm_rules]: "mset ps = mset ps' \<Longrightarrow> pearson ps = pearson ps'"
proof -
  assume p: "mset ps = mset ps'"
  then have "ps = [] \<longleftrightarrow> ps' = []" by auto
  then show ?thesis unfolding pearson_def by (simp only: dev_perm [OF p])
qed

lemma corr_matrix_nth:
  "i < length cols \<Longrightarrow> j < length cols \<Longrightarrow>
   corr_matrix cols fdf ! i ! j = pearson (col_pairs (cols ! max i j) (cols ! min i j) fdf)"
  by (simp add: corr_matrix_def nancorr_entry_pearson)

lemma set_corr_matrix: "set (concat (corr_matrix cols fdf)) \<subseteq> range pearson"
  by (auto simp: corr_matrix_def nancorr_entry_pearson)

lemma corr_matrix_Nil: "corr_matrix cols [] = replicate (length cols) (replicate (length cols) None)"
  by (simp add: corr_matrix_def nancorr_entry_pearson pearson_def col_pairs_def map_replicate_const)

lemma corr_matrix_perm: "mset t = mset t' \<Longrightarrow> corr_matrix cols t = corr_matrix cols t'"
  unfolding corr_matrix_def nancorr_entry_pearson
  by (intro map_cong refl pearson_perm mset_col_pairs_cong)

lemma corr_matrix_pearson:
  assumes "i < length cols" "j < length cols"
  shows "corr_matrix cols fdf ! i ! j = pearson (col_pairs (cols ! i) (cols ! j) fdf)"
proof (cases "j \<le> i")
  case True
  then show ?thesis using assms by (simp add: corr_matrix_nth max_def min_def)
next
  case False
  then show ?thesis using assms
    by (simp add: corr_matrix_nth max_def min_def col_pairs_swap [of "cols ! j"] pearson_swap)
qed

text \<open>
  C26. Refinement: the heatmap is the matrix of two-pass Pearson correlations of every
  pair of columns, each over the rows where both columns are present.
\<close>

theorem corr_matrix_refines:
  "corr_matrix cols fdf = map (\<lambda>c. map (\<lambda>d. pearson (col_pairs c d fdf)) cols) cols"
proof (rule nth_equalityI)
  show "length (corr_matrix cols fdf) = length (map (\<lambda>c. map (\<lambda>d. pearson (col_pairs c d fdf)) cols) cols)"
    by (simp add: corr_matrix_def)
  fix i assume "i < length (corr_matrix cols fdf)"
  then have i: "i < length cols" by (simp add: corr_matrix_def)
  show "corr_matrix cols fdf ! i = map (\<lambda>c. map (\<lambda>d. pearson (col_pairs c d fdf)) cols) cols ! i"
  proof (rule nth_equalityI)
    show "length (corr_matrix cols fdf ! i) = length (map (\<lambda>c. map (\<lambda>d. pearson (col_pairs c d fdf)) cols) cols ! i)"
      using i by (simp add: corr_matrix_def)
    fix j assume "j < length (corr_matrix cols fdf ! i)"
    then have "j < length cols" using i by (simp add: corr_matrix_def)
    then show "corr_matrix cols fdf ! i ! j = map (\<lambda>c. map (\<lambda>d. pearson (col_pairs c d fdf)) cols) cols ! i ! j"
      using i by (simp add: corr_matrix_pearson)
  qed
qed

text \<open>C27. Bounds: every entry of the heatmap is NaN or a coefficient in [-1, 1].\<close>

theorem corr_matrix_bounds: "set (concat (corr_matrix cols fdf)) \<subseteq> {None} \<union> Some ` {-1..1}"
proof
  fix e assume "e \<in> set (concat (corr_matrix cols fdf))"
  then obtain ps where e: "e = pearson ps" using set_corr_matrix by blast
  show "e \<in> {None} \<union> Some ` {-1..1}"
  proof (cases e)
    case (Some r)
    then have "-1 \<le> r \<and> r \<le> 1" using e pearson_bounds by metis
    then show ?thesis using Some by auto
  qed simp
qed

text \<open>
  C28. The diagonal: a column's correlation with itself is 1 when the column has two
  different values in the view, and NaN otherwise (no value, or a constant column).
\<close>

theorem corr_matrix_diag:
  assumes "i < length cols"
  shows "corr_matrix cols fdf ! i ! i =
    (if \<exists>x \<in> set (dropna (map (numval (cols ! i)) fdf)). \<exists>y \<in> set (dropna (map (numval (cols ! i)) fdf)). x \<noteq> y
     then Some 1 else None)"
  using assms by (simp add: corr_matrix_nth col_pairs_diag pearson_diag)

end
