(* ===== verification/DeepDive.thy ===== *)
theory DeepDive
  imports Dashboard Correlation
begin

text \<open>
  The charts of the fifth tab of src/app2.py that the other theories do not cover,
  and the industry box plot and sunburst of the third: the scatter plot with its two
  axis selectboxes (lines 251-274), the two tool pies as handed to pyecharts (lines
  302-339 and 356-399), the box plots by category (lines 195-198 and 400-409), the
  sunburst (lines 188-191) and the correlation heatmap (lines 411-414). Each
  definition computes what the script hands to the rendering library; the lemmas show that the axis choices never raise, that
  the boxes partition the view's values, what the scatter plot draws, and that the
  sunburst's volumes add up to the total-volume KPI.
\<close>

subsection \<open>Scatter plot\<close>

text \<open>The choices of both axis selectboxes (lines 254-268): every numeric metric but the year.\<close>

definition axis_options :: "string list" where
  "axis_options =
     [''AI Adoption Rate (%)'', ''AI-Generated Content Volume (TBs per year)'',
      ''Job Loss Due to AI (%)'', ''Revenue Increase Due to AI (%)'',
      ''Human-AI Collaboration Rate (%)'', ''Consumer Trust in AI (%)'']"

text \<open>
  What \<open>px.scatter\<close> receives (lines 270-273): the columns named by the two choices,
  looked up in \<open>filtered_df\<close>, one point per row with its x and y cells, the
  \<open>Industry\<close> colour and the \<open>Country\<close> and \<open>Year\<close> hover data, and the title.
\<close>

record scatter_plot =
  x_col :: numcol
  y_col :: numcol
  points :: "(cell \<times> cell \<times> string \<times> string \<times> int) list"
  scatter_title :: string

definition scatter :: "nat option \<Rightarrow> nat option \<Rightarrow> frame \<Rightarrow> df_error + scatter_plot" where
  "scatter xst yst fdf =
     (case selectbox axis_options xst of
        None \<Rightarrow> Inl (KeyError ''None'')
      | Some x_axis \<Rightarrow>
     (case selectbox axis_options yst of
        None \<Rightarrow> Inl (KeyError ''None'')
      | Some y_axis \<Rightarrow>
     (case df_column x_axis of
        Inl e \<Rightarrow> Inl e
      | Inr xc \<Rightarrow>
     (case df_column y_axis of
        Inl e \<Rightarrow> Inl e
      | Inr yc \<Rightarrow>
        Inr \<lparr>x_col = xc, y_col = yc,
             points = map (\<lambda>r. (numval xc r, numval yc r, Industry r, Country r, Year r)) fdf,
             scatter_title = ''Relationship between '' @ x_axis @ '' and '' @ y_axis\<rparr>))))"

subsection \<open>Tool pies\<close>

text \<open>
  The arguments of \<open>Pie().add(...)\<close> and of its title option. The f-string shows a
  missing choice (\<open>st.selectbox\<close> over no option returns \<open>None\<close>) as \<open>None\<close>.
\<close>

record pie_chart =
  series_name :: string
  data_pair :: "(string \<times> nat) list"
  pie_title :: string

definition py_str :: "string option \<Rightarrow> string" where
  "py_str s = (case s of None \<Rightarrow> ''None'' | Some x \<Rightarrow> x)"

text \<open>Lines 302-316: the pie of the chosen industry.\<close>

definition industry_pie :: "(string list \<times> nat) option \<Rightarrow> frame \<Rightarrow> pie_chart" where
  "industry_pie st fdf =
     (case tools_in Industry st fdf of
        (selected_industry, data) \<Rightarrow>
          \<lparr>series_name = ''Tools'', data_pair = data,
           pie_title = ''Tool Usage in '' @ py_str selected_industry @ '' Industry''\<rparr>)"

text \<open>Lines 356-376: the pie of the chosen country.\<close>

definition country_pie :: "(string list \<times> nat) option \<Rightarrow> frame \<Rightarrow> pie_chart" where
  "country_pie st fdf =
     (case tools_in Country st fdf of
        (selected_country, data) \<Rightarrow>
          \<lparr>series_name = ''Tools'', data_pair = data,
           pie_title = ''Tool Usage in '' @ py_str selected_country\<rparr>)"

subsection \<open>Box plots\<close>

text \<open>
  \<open>px.box(filtered_df, x=key, y=col)\<close>: one box per category of \<open>key\<close>, in order
  of first appearance, over the category's non-NaN values of \<open>col\<close> (plotly's
  contract; the quartiles are computed by the browser and are not modelled).
\<close>

definition box_groups :: "(row \<Rightarrow> string) \<Rightarrow> (row \<Rightarrow> cell) \<Rightarrow> frame \<Rightarrow> (string \<times> real list) list" where
  "box_groups key col fdf =
     map (\<lambda>k. (k, dropna (map col (filter (\<lambda>r. key r = k) fdf)))) (pd_unique (map key fdf))"

text \<open>Lines 195-198: adoption rate by industry (third tab).\<close>

definition industry_boxes :: "frame \<Rightarrow> (string \<times> real list) list" where
  "industry_boxes fdf = box_groups Industry adoption_rate fdf"

text \<open>Lines 400-409: adoption rate and job loss by regulation status.\<close>

definition regulation_boxes :: "frame \<Rightarrow> (string \<times> real list) list \<times> (string \<times> real list) list" where
  "regulation_boxes fdf =
     (box_groups regulation_status adoption_rate fdf, box_groups regulation_status job_loss fdf)"

subsection \<open>Sunburst\<close>

text \<open>
  \<open>px.sunburst(filtered_df, path=['Industry', 'Country'], values=volume)\<close> (lines
  188-191), plotly's contract: one leaf per (industry, country) pair of the view and
  one parent per industry, each valued by the sum of the volumes of its rows (NaN
  skipped, as pandas' \<open>groupby(path).sum()\<close> that plotly uses does).
\<close>

definition sunburst :: "frame \<Rightarrow> ((string \<times> string) \<times> real) list \<times> (string \<times> real) list" where
  "sunburst fdf =
     (groupby_agg (\<lambda>r. (Industry r, Country r)) (\<lambda>g. series_sum (map content_volume g)) fdf,
      groupby_agg Industry (\<lambda>g. series_sum (map content_volume g)) fdf)"

subsection \<open>Correlation heatmap\<close>

text \<open>
  Lines 411-414: \<open>select_dtypes(include=['float64', 'int64'])\<close> selects the seven
  numeric columns (the year is int64, the metrics float64), and the heatmap shows
  \<open>corr()\<close> of the view on them, labelled with the column names.
\<close>

definition heatmap :: "frame \<Rightarrow> string list \<times> cell list list" where
  "heatmap fdf = (map col_label numeric_cols, corr_matrix numeric_cols fdf)"

subsection \<open>Axis choices never raise\<close>

lemma axis_options_labels:
  "axis_options = map col_label [AdoptionC, ContentC, JobLossC, RevenueC, CollabC, TrustC]"
  by (simp add: axis_options_def)

lemma axis_options_columns: "a \<in> set axis_options \<Longrightarrow> \<exists>c. df_column a = Inr c \<and> col_label c = a"
  unfolding axis_options_labels by (auto simp del: col_label.simps simp: df_column_label)

lemma axis_options_ne: "axis_options \<noteq> []"
  by (simp add: axis_options_def)

lemma select_axis:
  "\<exists>a c. selectbox axis_options st = Some a \<and> df_column a = Inr c \<and> col_label c = a"
proof -
  obtain a where a: "selectbox axis_options st = Some a" "a \<in> set axis_options"
    using selectbox_Some_in [OF axis_options_ne] by blast
  then show ?thesis using axis_options_columns by blast
qed

lemma scatter_Inr:
  "\<exists>xc yc. scatter xst yst fdf =
     Inr \<lparr>x_col = xc, y_col = yc,
          points = map (\<lambda>r. (numval xc r, numval yc r, Industry r, Country r, Year r)) fdf,
          scatter_title = ''Relationship between '' @ col_label xc @ '' and '' @ col_label yc\<rparr>"
proof -
  obtain xa xc where x: "selectbox axis_options xst = Some xa" "df_column xa = Inr xc" "col_label xc = xa"
    using select_axis by blast
  obtain ya yc where y: "selectbox axis_options yst = Some ya" "df_column ya = Inr yc" "col_label yc = ya"
    using select_axis by blast
  show ?thesis using x y by (simp add: scatter_def)
qed

text \<open>
  The axis choices do not depend on the data: two frames with the same rows give
  scatter plots of the same columns and the same points.
\<close>

lemma scatter_perm:
  assumes "mset t = mset t'"
  shows "\<exists>sp sp'. scatter xst yst t = Inr sp \<and> scatter xst yst t' = Inr sp' \<and>
    x_col sp = x_col sp' \<and> y_col sp = y_col sp' \<and> mset (points sp) = mset (points sp')"
proof -
  obtain xa xc where x: "selectbox axis_options xst = Some xa" "df_column xa = Inr xc"
    using select_axis by blast
  obtain ya yc where y: "selectbox axis_options yst = Some ya" "df_column ya = Inr yc"
    using select_axis by blast
  have "mset (map (\<lambda>r. (numval xc r, numval yc r, Industry r, Country r, Year r)) t) =
      mset (map (\<lambda>r. (numval xc r, numval yc r, Industry r, Country r, Year r)) t')"
    by (rule mset_map_cong [OF assms])
  then show ?thesis using x y by (simp add: scatter_def)
qed

lemma sunburst_perm: "mset t = mset t' \<Longrightarrow> sunburst t = sunburst t'"
  unfolding sunburst_def
  by (auto intro!: groupby_agg_perm series_sum_perm mset_map_cong)

lemma heatmap_perm: "mset t = mset t' \<Longrightarrow> heatmap t = heatmap t'"
  by (simp add: heatmap_def corr_matrix_perm [of t t'])

subsection \<open>The charts on an empty view\<close>

lemma length_numeric_cols: "length numeric_cols = 7"
  by (simp add: numeric_cols_def)

lemma deep_dive_Nil [df_simps]:
  "industry_pie st [] = \<lparr>series_name = ''Tools'', data_pair = [], pie_title = ''Tool Usage in None Industry''\<rparr>"
  "country_pie st [] = \<lparr>series_name = ''Tools'', data_pair = [], pie_title = ''Tool Usage in None''\<rparr>"
  "industry_boxes [] = []" "regulation_boxes [] = ([], [])" "sunburst [] = ([], [])"
  "heatmap [] = (map col_label numeric_cols, replicate 7 (replicate 7 None))"
  by (simp_all add: industry_pie_def country_pie_def df_simps py_str_def industry_boxes_def
      regulation_boxes_def box_groups_def sunburst_def groupby_agg_def heatmap_def corr_matrix_Nil length_numeric_cols)

subsection \<open>Groups of rows\<close>

lemma mset_filter_disj:
  "(\<And>x. \<not> (P x \<and> Q x)) \<Longrightarrow>
   mset (filter P xs) + mset (filter Q xs) = mset (filter (\<lambda>x. P x \<or> Q x) xs)"
  by (induction xs) auto

lemma mset_concat_groups:
  "distinct ks \<Longrightarrow>
   mset (concat (map (\<lambda>k. filter (\<lambda>x. f x = k) xs) ks)) = mset (filter (\<lambda>x. f x \<in> set ks) xs)"
proof (induction ks)
  case (Cons k ks)
  then have "mset (filter (\<lambda>x. f x = k) xs) + mset (filter (\<lambda>x. f x \<in> set ks) xs) =
      mset (filter (\<lambda>x. f x = k \<or> f x \<in> set ks) xs)"
    by (intro mset_filter_disj) auto
  with Cons show ?case by simp
qed simp

subsection \<open>Sunburst\<close>

lemma series_sum_concat: "series_sum (concat xss) = sum_list (map series_sum xss)"
  by (induction xss) (simp_all add: series_sum_def dropna_append)

lemma groupby_sum_total:
  "sum_list (map snd (groupby_agg key (\<lambda>g. series_sum (map col g)) t)) = series_sum (map col t)"
proof -
  let ?ks = "sort (remdups (map key t))"
  have "sum_list (map snd (groupby_agg key (\<lambda>g. series_sum (map col g)) t)) =
      series_sum (map col (concat (map (\<lambda>k. filter (\<lambda>r. key r = k) t) ?ks)))"
    by (simp add: groupby_agg_def series_sum_concat map_concat comp_def)
  also have "\<dots> = series_sum (map col t)"
  proof (rule series_sum_perm, rule mset_map_cong)
    show "mset (concat (map (\<lambda>k. filter (\<lambda>r. key r = k) t) ?ks)) = mset t"
      using mset_concat_groups [of ?ks key t] by (simp add: filter_True)
  qed
  finally show ?thesis .
qed

text \<open>
  C31. The sunburst's leaves and its industry rings each add up to the "Total AI Content
  Volume" KPI of the overview tab: the chart partitions the total the KPI shows.
\<close>

theorem sunburst_total:
  "sum_list (map snd (fst (sunburst fdf))) = total_content (overview_kpis fdf) \<and>
   sum_list (map snd (snd (sunburst fdf))) = total_content (overview_kpis fdf)"
  by (simp add: sunburst_def overview_kpis_def groupby_sum_total)

subsection \<open>The tool pies' default\<close>

lemma industry_pie_title_default:
  "fdf \<noteq> [] \<Longrightarrow> pie_title (industry_pie None fdf) = ''Tool Usage in '' @ Industry (hd fdf) @ '' Industry''"
  using tools_in_default [of fdf Industry]
  by (auto simp: industry_pie_def py_str_def split: prod.split)

text \<open>
  C22. Until the user picks an industry, the industry tool pie (lines 288-316) shows
  the industry of the first row of the view, since \<open>unique()\<close> lists the industries
  in order of first appearance. So when the view has two industries, some reordering
  of the same rows shows a different pie: the one output of the page that depends on
  the order of the CSV rows.
\<close>

theorem tool_pie_default_depends_on_row_order:
  assumes r: "r \<in> set fdf" "r' \<in> set fdf" "Industry r \<noteq> Industry r'"
  shows "pie_title (industry_pie None fdf) = ''Tool Usage in '' @ Industry (hd fdf) @ '' Industry'' \<and>
    (\<exists>fdf'. mset fdf' = mset fdf \<and> pie_title (industry_pie None fdf') \<noteq> pie_title (industry_pie None fdf))"
proof -
  have ne: "fdf \<noteq> []" using r by auto
  obtain x where x: "x \<in> set fdf" "Industry x \<noteq> Industry (hd fdf)" using r by metis
  let ?fdf' = "x # remove1 x fdf"
  have "mset ?fdf' = mset fdf" using x(1) by simp
  moreover have "pie_title (industry_pie None ?fdf') \<noteq> pie_title (industry_pie None fdf)"
    using x(2) by (simp add: industry_pie_title_default ne)
  ultimately show ?thesis using industry_pie_title_default [OF ne] by blast
qed

end
