(* ===== verification/Charts.thy ===== *)
theory Charts
  imports DeepDive
begin

text \<open>
  The rendering boundary of src/app2.py: the arguments of every plotly express call
  of the page (lines 123-409). Each call is given a data frame, a chart kind, the
  columns to plot (named by their labels), an optional bin count and a title.
  plotly raises \<open>ValueError\<close> when a column argument names no column of the data
  frame (\<open>px_validate\<close>). The lemmas show that every call the page makes names
  only columns of the table it is handed.
\<close>

subsection \<open>Chart calls\<close>

datatype chart_kind = Histogram | Choropleth | Bar | Sunburst | Box | Line | Scatter

record px_chart =
  kind :: chart_kind
  table_cols :: "string list"
  col_args :: "(string \<times> string) list"
  nbins :: "nat option"
  chart_title :: string

text \<open>The columns of the CSV file and so of \<open>filtered_df\<close> (the schema of spec section 3).\<close>

definition frame_columns :: "string list" where
  "frame_columns =
     [''Country'', ''Year'', ''Industry'', ''AI Adoption Rate (%)'',
      ''AI-Generated Content Volume (TBs per year)'', ''Job Loss Due to AI (%)'',
      ''Revenue Increase Due to AI (%)'', ''Human-AI Collaboration Rate (%)'',
      ''Top AI Tools Used'', ''Regulation Status'', ''Consumer Trust in AI (%)'']"

text \<open>
  What plotly express checks before drawing: every column argument names a column
  of the data frame; the first one that does not raises \<open>ValueError\<close>.
\<close>

definition px_validate :: "px_chart \<Rightarrow> df_error + px_chart" where
  "px_validate c =
     (case find (\<lambda>a. snd a \<notin> set (table_cols c)) (col_args c) of
        None \<Rightarrow> Inr c
      | Some (arg, col) \<Rightarrow> Inl (ValueError col))"

text \<open>Lines 123-144: the two histograms of the overview tab.\<close>

definition overview_histograms :: "px_chart list" where
  "overview_histograms =
     [\<lparr>kind = Histogram, table_cols = frame_columns, col_args = [(''x'', ''AI Adoption Rate (%)'')],
       nbins = Some 20, chart_title = ''AI Adoption Rate Distribution''\<rparr>,
      \<lparr>kind = Histogram, table_cols = frame_columns, col_args = [(''x'', ''Job Loss Due to AI (%)'')],
       nbins = Some 15, chart_title = ''Job Loss Due to AI Distribution''\<rparr>]"

text \<open>Lines 150-158: the choropleth of \<open>country_means\<close> (Country and the numeric columns).\<close>

definition choropleth_chart :: px_chart where
  "choropleth_chart =
     \<lparr>kind = Choropleth, table_cols = ''Country'' # map col_label numeric_cols,
      col_args = [(''locations'', ''Country''), (''color'', ''AI Adoption Rate (%)'')],
      nbins = None, chart_title = ''Average AI Adoption Rate by Country''\<rparr>"

text \<open>Lines 163-167: the content volume bar chart.\<close>

definition volume_bar_chart :: px_chart where
  "volume_bar_chart =
     \<lparr>kind = Bar, table_cols = [''Country'', ''AI-Generated Content Volume (TBs per year)''],
      col_args = [(''x'', ''Country''), (''y'', ''AI-Generated Content Volume (TBs per year)'')],
      nbins = None, chart_title = ''AI-Generated Content Volume by Country''\<rparr>"

text \<open>
  Lines 178-182 and 208-212: the comparison bar chart of \<open>groupby(key)[metric].mean()\<close>,
  titled \<open>f"{metric} by {key}"\<close>.
\<close>

definition metric_bar_chart :: "string \<Rightarrow> string \<Rightarrow> px_chart" where
  "metric_bar_chart key metric =
     \<lparr>kind = Bar, table_cols = [key, metric], col_args = [(''x'', key), (''y'', metric)],
      nbins = None, chart_title = metric @ '' by '' @ key\<rparr>"

text \<open>Lines 188-191: the sunburst of \<open>filtered_df\<close>.\<close>

definition sunburst_chart :: px_chart where
  "sunburst_chart =
     \<lparr>kind = Sunburst, table_cols = frame_columns,
      col_args = [(''path'', ''Industry''), (''path'', ''Country''),
                  (''values'', ''AI-Generated Content Volume (TBs per year)'')],
      nbins = None, chart_title = ''AI Content Volume by Industry and Country''\<rparr>"

text \<open>Lines 195-197: adoption by industry.\<close>

definition industry_box_chart :: px_chart where
  "industry_box_chart =
     \<lparr>kind = Box, table_cols = frame_columns,
      col_args = [(''x'', ''Industry''), (''y'', ''AI Adoption Rate (%)'')],
      nbins = None, chart_title = ''AI Adoption Rate Distribution by Industry''\<rparr>"

text \<open>
  Lines 219-222, 227-230 and 242-245: a line chart of
  \<open>groupby(['Year', key])[metric].mean().reset_index()\<close>.
\<close>

definition trend_line_chart :: "string \<Rightarrow> string \<Rightarrow> string \<Rightarrow> px_chart" where
  "trend_line_chart key metric title =
     \<lparr>kind = Line, table_cols = [''Year'', key, metric],
      col_args = [(''x'', ''Year''), (''y'', metric), (''color'', key)],
      nbins = None, chart_title = title\<rparr>"

text \<open>Lines 270-273: the scatter plot of \<open>filtered_df\<close>.\<close>

definition scatter_chart_call :: "string \<Rightarrow> string \<Rightarrow> px_chart" where
  "scatter_chart_call x_axis y_axis =
     \<lparr>kind = Scatter, table_cols = frame_columns,
      col_args = [(''x'', x_axis), (''y'', y_axis), (''color'', ''Industry''),
                  (''hover_data'', ''Country''), (''hover_data'', ''Year'')],
      nbins = None, chart_title = ''Relationship between '' @ x_axis @ '' and '' @ y_axis\<rparr>"

text \<open>Lines 277-281: the tool counts, after \<open>tool_counts.columns = ['Tool', 'Count']\<close>.\<close>

definition tool_bar_chart :: px_chart where
  "tool_bar_chart =
     \<lparr>kind = Bar, table_cols = [''Tool'', ''Count''], col_args = [(''x'', ''Tool''), (''y'', ''Count'')],
      nbins = None, chart_title = ''Most Used AI Tools Overall''\<rparr>"

text \<open>Lines 401-408: the two regulation box plots.\<close>

definition regulation_box_charts :: "px_chart list" where
  "regulation_box_charts =
     [\<lparr>kind = Box, table_cols = frame_columns,
       col_args = [(''x'', ''Regulation Status''), (''y'', ''AI Adoption Rate (%)'')],
       nbins = None, chart_title = ''AI Adoption Rate by Regulation Strictness''\<rparr>,
      \<lparr>kind = Box, table_cols = frame_columns,
       col_args = [(''x'', ''Regulation Status''), (''y'', ''Job Loss Due to AI (%)'')],
       nbins = None, chart_title = ''Job Loss Due to AI by Regulation Strictness''\<rparr>]"

subsection \<open>Column arguments resolve\<close>

lemma px_validate_ok: "snd ` set (col_args c) \<subseteq> set (table_cols c) \<Longrightarrow> px_validate c = Inr c"
  by (auto simp: px_validate_def split: option.split dest!: find_Some_in)

lemma px_validate_Inl: "px_validate c = Inl e \<Longrightarrow> \<exists>arg col. (arg, col) \<in> set (col_args c) \<and> col \<notin> set (table_cols c) \<and> e = ValueError col"
  by (auto simp: px_validate_def split: option.splits dest!: find_Some_in)

lemma axis_options_frame_columns: "set axis_options \<subseteq> set frame_columns"
  by (simp add: axis_options_def frame_columns_def)

lemma fixed_chart_lists_ok:
  "\<forall>c \<in> set (overview_histograms @ regulation_box_charts). px_validate c = Inr c"
  by (auto intro!: px_validate_ok simp: overview_histograms_def regulation_box_charts_def frame_columns_def)

lemma choropleth_chart_ok: "px_validate choropleth_chart = Inr choropleth_chart"
  by (rule px_validate_ok) (simp add: choropleth_chart_def numeric_cols_def)

lemma volume_bar_chart_ok: "px_validate volume_bar_chart = Inr volume_bar_chart"
  by (rule px_validate_ok) (simp add: volume_bar_chart_def)

lemma sunburst_chart_ok: "px_validate sunburst_chart = Inr sunburst_chart"
  by (rule px_validate_ok) (simp add: sunburst_chart_def frame_columns_def)

lemma industry_box_chart_ok: "px_validate industry_box_chart = Inr industry_box_chart"
  by (rule px_validate_ok) (simp add: industry_box_chart_def frame_columns_def)

lemma tool_bar_chart_ok: "px_validate tool_bar_chart = Inr tool_bar_chart"
  by (rule px_validate_ok) (simp add: tool_bar_chart_def)

lemma metric_bar_chart_ok: "px_validate (metric_bar_chart key m) = Inr (metric_bar_chart key m)"
  by (rule px_validate_ok) (simp add: metric_bar_chart_def)

lemma trend_line_chart_ok: "px_validate (trend_line_chart key m t) = Inr (trend_line_chart key m t)"
  by (rule px_validate_ok) (auto simp: trend_line_chart_def)

lemma scatter_chart_call_ok:
  "x \<in> set axis_options \<Longrightarrow> y \<in> set axis_options \<Longrightarrow>
   px_validate (scatter_chart_call x y) = Inr (scatter_chart_call x y)"
proof (rule px_validate_ok)
  assume "x \<in> set axis_options" "y \<in> set axis_options"
  then have "x \<in> set frame_columns" "y \<in> set frame_columns"
    using axis_options_frame_columns by blast+
  moreover have "''Industry'' \<in> set frame_columns" "''Country'' \<in> set frame_columns"
    "''Year'' \<in> set frame_columns" by (simp_all add: frame_columns_def)
  ultimately show "snd ` set (col_args (scatter_chart_call x y)) \<subseteq> set (table_cols (scatter_chart_call x y))"
    by (simp add: scatter_chart_call_def)
qed

end
