(* ===== verification/Session.thy ===== *)
theory Session
  imports Dashboard DeepDive Charts
begin

text \<open>
  The whole script of src/app2.py: one run computes the page (sidebar, filter, every
  tab) from the loaded frame and the widget states, through the process-wide data
  cache; a session is the sequence of reruns Streamlit makes, one per interaction.
  The lemmas show that only the CSV read can fail, that the cache makes every rerun
  after the first successful load use the same frame, and what an empty view shows.
\<close>

subsection \<open>The page\<close>

record page_widgets =
  geo_metric :: "nat option"
  industry_metric :: "nat option"
  trend_metric :: "nat option"
  trend_group :: "nat option"
  scatter_x :: "nat option"
  scatter_y :: "nat option"
  tool_industry :: "(string list \<times> nat) option"
  tool_country :: "(string list \<times> nat) option"

record ui_state =
  sidebar_w :: sidebar_state
  page_w :: page_widgets

definition fresh_ui :: ui_state where
  "fresh_ui =
     \<lparr>sidebar_w = untouched,
      page_w = \<lparr>geo_metric = None, industry_metric = None, trend_metric = None,
                trend_group = None, scatter_x = None, scatter_y = None,
                tool_industry = None, tool_country = None\<rparr>\<rparr>"

text \<open>
  The plotly express calls of the page in script order, with the labels the metric,
  grouping and axis widgets return (lines 123-409).
\<close>

definition page_charts :: "page_widgets \<Rightarrow> px_chart list" where
  "page_charts w =
     (let geo_metric_label = py_str (selectbox metric_options (geo_metric w));
          industry_metric_label = py_str (selectbox metric_options (industry_metric w));
          metric = py_str (selectbox metric_options (trend_metric w));
          group_by = py_str (selectbox group_options (trend_group w));
          x_axis = py_str (selectbox axis_options (scatter_x w));
          y_axis = py_str (selectbox axis_options (scatter_y w))
      in overview_histograms @
         [choropleth_chart, volume_bar_chart, metric_bar_chart ''Country'' geo_metric_label,
          sunburst_chart, industry_box_chart, metric_bar_chart ''Industry'' industry_metric_label,
          trend_line_chart ''Country'' ''AI Adoption Rate (%)'' ''AI Adoption Rate Over Time by Country'',
          trend_line_chart ''Industry'' ''AI Adoption Rate (%)'' ''AI Adoption Rate Over Time by Industry'',
          trend_line_chart group_by metric (metric @ '' Over Time by '' @ group_by),
          scatter_chart_call x_axis y_axis, tool_bar_chart] @ regulation_box_charts)"

record page =
  page_options :: filter_options
  page_selection :: selection
  filtered :: frame
  overview :: kpis
  overview_cards :: "(string \<times> string) list"
  means_by_country :: "(string \<times> cell list) list"
  volume_by_country :: "(string \<times> cell) list"
  metric_by_country :: "(string \<times> cell) list"
  content_sunburst :: "((string \<times> string) \<times> real) list \<times> (string \<times> real) list"
  adoption_by_industry :: "(string \<times> real list) list"
  metric_by_industry :: "(string \<times> cell) list"
  adoption_trend_country :: "((int \<times> string) \<times> cell) list"
  adoption_trend_industry :: "((int \<times> string) \<times> cell) list"
  metric_trend :: "((int \<times> string) \<times> cell) list"
  scatter_chart :: scatter_plot
  tool_popularity :: "(string \<times> nat) list"
  industry_tool_pie :: pie_chart
  country_tool_pie :: pie_chart
  regulation_impact :: "(string \<times> real list) list \<times> (string \<times> real list) list"
  correlation :: "string list \<times> cell list list"
  charts :: "px_chart list"

text \<open>
  The script after \<open>df = load_data()\<close> (lines 29-414), in its order: sidebar,
  filter, then the tabs. The first exception ends the run: a metric or axis label
  that names no column would raise at the comparison tables (lines 178 and 208), the
  trend table (line 241) or the scatter plot (line 270).
\<close>

definition render :: "frame \<Rightarrow> ui_state \<Rightarrow> df_error + page" where
  "render df u =
     (let w = page_w u;
          sel = sidebar df (sidebar_w u);
          fdf = filter_df df sel
      in case compare_by Country (geo_metric w) fdf of
           Inl e \<Rightarrow> Inl e
         | Inr by_country \<Rightarrow>
         (case compare_by Industry (industry_metric w) fdf of
            Inl e \<Rightarrow> Inl e
          | Inr by_industry \<Rightarrow>
          (case time_trend (trend_metric w) (trend_group w) fdf of
             Inl e \<Rightarrow> Inl e
           | Inr tt \<Rightarrow>
           (case scatter (scatter_x w) (scatter_y w) fdf of
              Inl e \<Rightarrow> Inl e
            | Inr sp \<Rightarrow>
               Inr \<lparr>page_options = sidebar_options df, page_selection = sel, filtered = fdf,
                    overview = overview_kpis fdf, overview_cards = overview_metrics (overview_kpis fdf),
                    means_by_country = country_means fdf,
                    volume_by_country = content_by_country fdf,
                    metric_by_country = by_country, content_sunburst = sunburst fdf,
                    adoption_by_industry = industry_boxes fdf,
                    metric_by_industry = by_industry,
                    adoption_trend_country = trend_by Country adoption_rate fdf,
                    adoption_trend_industry = trend_by Industry adoption_rate fdf,
                    metric_trend = tt, scatter_chart = sp, tool_popularity = tool_counts fdf,
                    industry_tool_pie = industry_pie (tool_industry w) fdf,
                    country_tool_pie = country_pie (tool_country w) fdf,
                    regulation_impact = regulation_boxes fdf,
                    correlation = heatmap fdf, charts = page_charts w\<rparr>))))"

text \<open>
  One run of the script: \<open>load_data()\<close> through the cache (lines 16-20), then the
  page. A load failure ends the run before any widget exists; the cache after the
  run is returned either way.
\<close>

definition run_script :: "data_cache \<Rightarrow> csv_file \<Rightarrow> ui_state \<Rightarrow> (df_error + page) \<times> data_cache" where
  "run_script c f u =
     (case load_data c f of
        Inl e \<Rightarrow> (Inl e, c)
      | Inr (df, c') \<Rightarrow> (render df u, c'))"

subsection \<open>Reruns\<close>

text \<open>
  Every interaction changes one widget's state and reruns the whole script. A
  browser refresh starts a new session: all widgets untouched. The data cache
  belongs to the process and survives both.
\<close>

datatype event =
    SetYears "nat list" | SetCountries "nat list" | SetIndustries "nat list"
  | SetIndustries2 "nat list" | SetGeoMetric nat | SetIndustryMetric nat
  | SetTrendMetric nat | SetTrendGroup nat | SetScatterX nat | SetScatterY nat
  | SetToolIndustry "string list" nat | SetToolCountry "string list" nat
  | Refresh

fun apply_event :: "ui_state \<Rightarrow> event \<Rightarrow> ui_state" where
  "apply_event u (SetYears ixs) = u\<lparr>sidebar_w := (sidebar_w u)\<lparr>years_ms := Some ixs\<rparr>\<rparr>"
| "apply_event u (SetCountries ixs) = u\<lparr>sidebar_w := (sidebar_w u)\<lparr>countries_ms := Some ixs\<rparr>\<rparr>"
| "apply_event u (SetIndustries ixs) = u\<lparr>sidebar_w := (sidebar_w u)\<lparr>industries_ms := Some ixs\<rparr>\<rparr>"
| "apply_event u (SetIndustries2 ixs) = u\<lparr>sidebar_w := (sidebar_w u)\<lparr>industries_ms2 := Some ixs\<rparr>\<rparr>"
| "apply_event u (SetGeoMetric i) = u\<lparr>page_w := (page_w u)\<lparr>geo_metric := Some i\<rparr>\<rparr>"
| "apply_event u (SetIndustryMetric i) = u\<lparr>page_w := (page_w u)\<lparr>industry_metric := Some i\<rparr>\<rparr>"
| "apply_event u (SetTrendMetric i) = u\<lparr>page_w := (page_w u)\<lparr>trend_metric := Some i\<rparr>\<rparr>"
| "apply_event u (SetTrendGroup i) = u\<lparr>page_w := (page_w u)\<lparr>trend_group := Some i\<rparr>\<rparr>"
| "apply_event u (SetScatterX i) = u\<lparr>page_w := (page_w u)\<lparr>scatter_x := Some i\<rparr>\<rparr>"
| "apply_event u (SetScatterY i) = u\<lparr>page_w := (page_w u)\<lparr>scatter_y := Some i\<rparr>\<rparr>"
| "apply_event u (SetToolIndustry shown i) = u\<lparr>page_w := (page_w u)\<lparr>tool_industry := Some (shown, i)\<rparr>\<rparr>"
| "apply_event u (SetToolCountry shown i) = u\<lparr>page_w := (page_w u)\<lparr>tool_country := Some (shown, i)\<rparr>\<rparr>"
| "apply_event u Refresh = fresh_ui"

text \<open>The widget states a sequence of interactions passes through, one per rerun.\<close>

fun ui_trace :: "ui_state \<Rightarrow> event list \<Rightarrow> ui_state list" where
  "ui_trace u [] = []"
| "ui_trace u (e # es) = apply_event u e # ui_trace (apply_event u e) es"

text \<open>
  A session: each interaction comes with the state of the CSV file at the time of its
  rerun; the result of every rerun, and the cache at the end.
\<close>

fun run_session :: "data_cache \<Rightarrow> ui_state \<Rightarrow> (event \<times> csv_file) list \<Rightarrow> (df_error + page) list \<times> data_cache" where
  "run_session c u [] = ([], c)"
| "run_session c u ((e, f) # es) =
     (let u' = apply_event u e;
          (r, c') = run_script c f u';
          (rs, c'') = run_session c' u' es
      in (r # rs, c''))"

subsection \<open>Every run renders\<close>

text \<open>
  Every widget state and every frame (an empty one included) gives a page: the
  labels offered by the metric and grouping widgets all name columns, so no
  \<open>KeyError\<close> is possible after the load.
\<close>

lemma render_Inr: "\<exists>p. render df u = Inr p"
proof -
  let ?fdf = "filter_df df (sidebar df (sidebar_w u))"
  obtain c1 where "select_metric (geo_metric (page_w u)) = Inr c1" using select_metric_Inr by blast
  moreover obtain c2 where "select_metric (industry_metric (page_w u)) = Inr c2" using select_metric_Inr by blast
  moreover obtain c3 where "select_metric (trend_metric (page_w u)) = Inr c3" using select_metric_Inr by blast
  then obtain k where "time_trend (trend_metric (page_w u)) (trend_group (page_w u)) ?fdf = Inr (trend_by k (numval c3) ?fdf)"
    using time_trend_Inr by blast
  moreover obtain sp where "scatter (scatter_x (page_w u)) (scatter_y (page_w u)) ?fdf = Inr sp"
    using scatter_Inr by blast
  ultimately show ?thesis by (simp add: render_def compare_by_def Let_def)
qed

subsection \<open>Script runs and sessions\<close>

lemma run_script_cached: "cached_frame c = Some t \<Longrightarrow> run_script c f u = (render t u, c)"
  by (simp add: run_script_def load_data_def)

text \<open>
  C12. A run of the script fails exactly when the cache is empty and reading the
  CSV file fails (missing or malformed file); the failure leaves the cache empty.
  No other path of the script raises.
\<close>

theorem run_script_error:
  "run_script c f u = (Inl e, c') \<longleftrightarrow>
     cached_frame c = None \<and> read_csv f = Inl e \<and> c' = c"
proof -
  have "render df u \<noteq> Inl e'" for df e'
    using render_Inr [of df u] by auto
  then show ?thesis
    by (auto simp: run_script_def load_data_def split: option.splits sum.splits)
qed

text \<open>
  Once the data is cached, every rerun of a session renders the page from that same
  frame for the widget states the interactions lead to, and the cache never changes.
\<close>

lemma run_session_cached:
  "cached_frame c = Some t \<Longrightarrow>
   run_session c u es = (map (render t) (ui_trace u (map fst es)), c)"
  by (induction es arbitrary: u) (auto simp: run_script_cached Let_def)

text \<open>
  C13. A session whose first rerun reads the CSV file successfully renders every
  rerun from that frame, for the widget states the interactions lead to: the file is
  never read again, whatever it holds later, and the cache keeps that frame.
\<close>

theorem run_session_first_load:
  "run_session empty_cache u ((e, CsvTable t) # es) =
     (map (render t) (ui_trace u (e # map fst es)), \<lparr>cached_frame = Some t\<rparr>)"
  by (simp add: run_session_cached run_script_def load_data_def read_csv_def empty_cache_def Let_def)

lemma run_script_table:
  "\<exists>p c'. run_script c (CsvTable t) u = (Inr p, c') \<and> cached_frame c' \<noteq> None"
  using render_Inr by (auto simp: run_script_def load_data_def read_csv_def split: option.split)

lemma length_ui_trace: "length (ui_trace u es) = length es"
  by (induction es arbitrary: u) simp_all

lemma run_session_all_pages:
  "cached_frame c \<noteq> None \<Longrightarrow> j < length es \<Longrightarrow> \<exists>p. fst (run_session c u es) ! j = Inr p"
  using render_Inr by (auto simp: run_session_cached length_ui_trace)

text \<open>
  C30. A session recovers from a missing or malformed file: from the first rerun at which
  the CSV file reads, every rerun renders a page, whatever happens to the file
  afterwards.
\<close>

theorem run_session_recovers:
  "k < length es \<Longrightarrow> snd (es ! k) = CsvTable t \<Longrightarrow>
   \<forall>j. k \<le> j \<and> j < length es \<longrightarrow> (\<exists>p. fst (run_session c u es) ! j = Inr p)"
proof (induction es arbitrary: c u k)
  case (Cons ef es)
  obtain e f where ef: "ef = (e, f)" by fastforce
  obtain r c' where rc: "run_script c f (apply_event u e) = (r, c')" by fastforce
  have step: "fst (run_session c u (ef # es)) = r # fst (run_session c' (apply_event u e) es)"
    by (simp add: ef rc split: prod.split)
  show ?case
  proof (cases k)
    case 0
    then have "f = CsvTable t" using Cons.prems ef by simp
    then obtain p where "r = Inr p" "cached_frame c' \<noteq> None"
      using run_script_table [of c t "apply_event u e"] rc by auto
    then show ?thesis
      using run_session_all_pages [where c = c' and u = "apply_event u e" and es = es]
      by (auto simp: step nth_Cons')
  next
    case (Suc k')
    then have ih: "\<forall>j. k' \<le> j \<and> j < length es \<longrightarrow> (\<exists>p. fst (run_session c' (apply_event u e) es) ! j = Inr p)"
      using Cons.prems by (intro Cons.IH) simp_all
    show ?thesis
    proof (intro allI impI)
      fix j assume "k \<le> j \<and> j < length (ef # es)"
      then obtain j' where "j = Suc j'" "k' \<le> j'" "j' < length es" using Suc by (cases j) auto
      with ih show "\<exists>p. fst (run_session c u (ef # es)) ! j = Inr p" by (simp add: step)
    qed
  qed
qed simp

subsection \<open>An empty view\<close>

text \<open>Every field of a rendered page, from the frame and the widget states.\<close>

lemma render_page:
  "render df u = Inr p \<Longrightarrow>
   p = (let w = page_w u; sel = sidebar df (sidebar_w u); fdf = filter_df df sel in
        \<lparr>page_options = sidebar_options df, page_selection = sel, filtered = fdf,
         overview = overview_kpis fdf, overview_cards = overview_metrics (overview_kpis fdf),
         means_by_country = country_means fdf,
         volume_by_country = content_by_country fdf,
         metric_by_country = projr (compare_by Country (geo_metric w) fdf),
         content_sunburst = sunburst fdf, adoption_by_industry = industry_boxes fdf,
         metric_by_industry = projr (compare_by Industry (industry_metric w) fdf),
         adoption_trend_country = trend_by Country adoption_rate fdf,
         adoption_trend_industry = trend_by Industry adoption_rate fdf,
         metric_trend = projr (time_trend (trend_metric w) (trend_group w) fdf),
         scatter_chart = projr (scatter (scatter_x w) (scatter_y w) fdf),
         tool_popularity = tool_counts fdf,
         industry_tool_pie = industry_pie (tool_industry w) fdf,
         country_tool_pie = country_pie (tool_country w) fdf,
         regulation_impact = regulation_boxes fdf, correlation = heatmap fdf,
         charts = page_charts w\<rparr>)"
  by (auto simp: render_def Let_def split: sum.splits)

lemma no_countries_view:
  "countries_ms (sidebar_w u) = Some [] \<Longrightarrow> filter_df df (sidebar df (sidebar_w u)) = []"
  by (simp add: sidebar_unfold multiselect_def pick_def filter_df_def row_selected_def)

text \<open>
  C32. What the overview tab shows for an empty view: the spec asks for "no data";
  the script shows the NaN means as "nan%", the total volume as "0 TB/year" and the
  coverage counts as "0", without raising.
\<close>

theorem render_no_countries_metrics:
  assumes "countries_ms (sidebar_w u) = Some []" and "render df u = Inr p"
  shows "overview_cards p =
     [(''Average AI Adoption'', ''nan%''), (''Average Job Impact'', ''nan%''),
      (''Average Revenue Impact'', ''nan%''), (''Average Consumer Trust'', ''nan%''),
      (''Total AI Content Volume'', ''0 TB/year''), (''Avg Collaboration Rate'', ''nan%''),
      (''Countries Covered'', ''0''), (''Industries Covered'', ''0'')]"
  using render_page [OF assms(2)] no_countries_view [OF assms(1), of df]
  by (simp add: Let_def overview_metrics_Nil)


text \<open>
  C14. Deselecting every country empties the view and the page still renders: the
  mean KPIs are NaN, the total volume and the coverage counts are 0, every grouped
  table and every pie is empty, and no tool category is chosen.
\<close>

theorem render_no_countries:
  assumes "countries_ms (sidebar_w u) = Some []"
  shows "\<exists>p. render df u = Inr p \<and> filtered p = [] \<and>
     overview p = \<lparr>avg_adoption = None, avg_job_loss = None, avg_revenue = None,
       avg_trust = None, total_content = 0, avg_collab = None, num_countries = 0,
       num_industries = 0\<rparr> \<and>
     means_by_country p = [] \<and> volume_by_country p = [] \<and> metric_by_country p = [] \<and>
     metric_by_industry p = [] \<and> adoption_trend_country p = [] \<and>
     content_sunburst p = ([], []) \<and> adoption_by_industry p = [] \<and> adoption_trend_industry p = [] \<and> metric_trend p = [] \<and>
     points (scatter_chart p) = [] \<and> tool_popularity p = [] \<and>
     industry_tool_pie p = \<lparr>series_name = ''Tools'', data_pair = [],
       pie_title = ''Tool Usage in None Industry''\<rparr> \<and>
     country_tool_pie p = \<lparr>series_name = ''Tools'', data_pair = [], pie_title = ''Tool Usage in None''\<rparr> \<and>
     regulation_impact p = ([], []) \<and>
     correlation p = (map col_label numeric_cols, replicate 7 (replicate 7 None))"
proof -
  have "sel_countries (sidebar df (sidebar_w u)) = []"
    using assms by (simp add: sidebar_unfold multiselect_def pick_def)
  then have empty: "filter_df df (sidebar df (sidebar_w u)) = []"
    by (simp add: filter_df_def row_selected_def)
  obtain c1 where "select_metric (geo_metric (page_w u)) = Inr c1" using select_metric_Inr by blast
  moreover obtain c2 where "select_metric (industry_metric (page_w u)) = Inr c2" using select_metric_Inr by blast
  moreover obtain c3 where "select_metric (trend_metric (page_w u)) = Inr c3" using select_metric_Inr by blast
  moreover obtain xc yc where "scatter (scatter_x (page_w u)) (scatter_y (page_w u)) [] =
      Inr \<lparr>x_col = xc, y_col = yc, points = [],
           scatter_title = ''Relationship between '' @ col_label xc @ '' and '' @ col_label yc\<rparr>"
    using scatter_Inr [of "scatter_x (page_w u)" "scatter_y (page_w u)" "[]"] by auto
  ultimately show ?thesis
    by (simp add: render_def Let_def empty df_simps)
qed

subsection \<open>The charts\<close>

lemma selectbox_label_in:
  "opts \<noteq> [] \<Longrightarrow> py_str (selectbox opts st) \<in> set opts"
  using selectbox_Some_in [of opts st] by (auto simp: py_str_def)

text \<open>
  C23. No plotly express call of the page raises: for every widget state, each call
  names only columns of the data frame it is handed, so \<open>px_validate\<close> accepts
  every chart of the page.
\<close>

theorem charts_never_raise: "map px_validate (page_charts w) = map Inr (page_charts w)"
proof -
  have "px_validate (scatter_chart_call (py_str (selectbox axis_options (scatter_x w)))
      (py_str (selectbox axis_options (scatter_y w)))) =
    Inr (scatter_chart_call (py_str (selectbox axis_options (scatter_x w)))
      (py_str (selectbox axis_options (scatter_y w))))"
    by (intro scatter_chart_call_ok selectbox_label_in axis_options_ne)
  then show ?thesis
    using fixed_chart_lists_ok
    by (simp add: page_charts_def Let_def choropleth_chart_ok volume_bar_chart_ok sunburst_chart_ok
        industry_box_chart_ok tool_bar_chart_ok metric_bar_chart_ok trend_line_chart_ok)
qed

lemma select_metric_label: "select_metric st = Inr c \<Longrightarrow> py_str (selectbox metric_options st) = col_label c"
  by (auto simp: select_metric_def py_str_def split: option.splits dest: df_column_Inr)

lemma time_trend_label:
  "time_trend mst gst fdf = Inr tt \<Longrightarrow>
   \<exists>c k. select_metric mst = Inr c \<and> key_column (py_str (selectbox group_options gst)) = Inr k \<and>
     tt = trend_by k (numval c) fdf"
  by (auto simp: time_trend_def py_str_def split: sum.splits option.splits)

text \<open>
  C19. The metric charts show what their tables hold: the bar charts by country and
  by industry, and the metric trend line, plot in y and name in their title the
  column whose means their table holds, and the trend line is coloured by the
  column it groups by.
\<close>

theorem metric_charts_match_tables:
  assumes p: "render df u = Inr p"
  shows "(\<exists>c. metric_by_country p = sort_values_desc (groupby_mean Country (numval c) (filtered p)) \<and>
            metric_bar_chart ''Country'' (col_label c) \<in> set (charts p)) \<and>
         (\<exists>c. metric_by_industry p = sort_values_desc (groupby_mean Industry (numval c) (filtered p)) \<and>
            metric_bar_chart ''Industry'' (col_label c) \<in> set (charts p)) \<and>
         (\<exists>c g k. key_column g = Inr k \<and> metric_trend p = trend_by k (numval c) (filtered p) \<and>
            trend_line_chart g (col_label c) (col_label c @ '' Over Time by '' @ g) \<in> set (charts p))"
proof -
  let ?w = "page_w u" and ?fdf = "filter_df df (sidebar df (sidebar_w u))"
  note P = render_page [OF p, unfolded Let_def]
  obtain c1 where c1: "select_metric (geo_metric ?w) = Inr c1" using select_metric_Inr by blast
  obtain c2 where c2: "select_metric (industry_metric ?w) = Inr c2" using select_metric_Inr by blast
  obtain c3 where "select_metric (trend_metric ?w) = Inr c3" using select_metric_Inr by blast
  then obtain k where "time_trend (trend_metric ?w) (trend_group ?w) ?fdf = Inr (trend_by k (numval c3) ?fdf)"
    using time_trend_Inr by blast
  then obtain c k' where t: "select_metric (trend_metric ?w) = Inr c"
      "key_column (py_str (selectbox group_options (trend_group ?w))) = Inr k'"
      "trend_by k (numval c3) ?fdf = trend_by k' (numval c) ?fdf"
    using time_trend_label by blast
  have "metric_trend p = trend_by k' (numval c) (filtered p)"
    using P t \<open>time_trend _ _ _ = _\<close> by simp
  then show ?thesis
    using P c1 c2 t select_metric_label [OF c1] select_metric_label [OF c2] select_metric_label [OF t(1)]
    by (auto simp: compare_by_def page_charts_def Let_def)
qed

end
