(* ===== verification/Spec2Isabelle.thy ===== *)
theory Spec2Isabelle
  imports Session
begin

text \<open>
  \<^bold>\<open>A verification model of the Global AI Content Impact dashboard (src/app2.py).\<close>

  \<^bold>\<open>The program.\<close> One Streamlit script. It loads a fixed-schema CSV file once per
  process (\<open>load_data\<close>, cached by \<open>@st.cache_data\<close>, lines 16-20), offers three
  multiselect filters (Year, Country, Industry; lines 29-64), keeps the rows whose
  three keys are all selected (lines 66-71), and computes, for five tabs, KPI values,
  grouped means, sorted bar-chart tables, box-plot groups, trend lines, a scatter
  plot, tool counts and pies, and a correlation heatmap that it hands to plotting
  calls (lines 82-414). Streamlit reruns the whole script on every interaction; the
  widgets keep their state between reruns and the data cache belongs to the process.

  \<^bold>\<open>Theories.\<close>
  \<^item> \<open>Prelude\<close>: the cell type (\<open>real option\<close>, \<open>None\<close> is NaN), the rule
    collections \<open>df_simps\<close> (evaluation rules of the frame operations) and
    \<open>perm_rules\<close> (invariance under a permutation of rows), and shared lemmas on
    \<open>sort (remdups _)\<close> and multisets.
  \<^item> \<open>Dataset\<close>: the row record (the CSV schema), the numeric columns with their
    labels, \<open>df_column\<close> (indexing by label, \<open>KeyError\<close> as a value), and
    \<open>load_data\<close> with the cache as an explicit \<open>data_cache\<close> state; \<open>read_csv\<close>
    is the outcome of \<open>pd.read_csv\<close> (missing file, malformed file, or a frame).
  \<^item> \<open>Filters\<close>: \<open>unique_sorted\<close> (\<open>sorted(df[c].unique())\<close>), the
    multiselect contract (\<open>multiselect\<close>, \<open>pick\<close>), the four sidebar widgets as
    written (\<open>sidebar\<close>), the
    mask (\<open>filter_df\<close>) and the spec's set contract (\<open>filtered_view\<close>).
  \<^item> \<open>Aggregation\<close>: pandas' reductions (\<open>series_mean\<close>, \<open>series_sum\<close>,
    \<open>nunique\<close>, with \<open>dropna\<close> for \<open>skipna\<close>), \<open>groupby_agg\<close> and
    \<open>groupby_mean\<close>, \<open>sort_values_desc\<close> (NaN last), \<open>value_counts\<close>, and
    \<open>pd_unique\<close> (\<open>Series.unique()\<close>, first appearance order, by pandas' pass over
    the values, \<open>unique_from\<close>), generic in the row type.
  \<^item> \<open>Widgets\<close>: the selectbox/radio contract (\<open>selectbox\<close>, \<open>selectbox_for\<close>
    for the unkeyed widgets whose options depend on the data), the metric and
    grouping choices and the column lookups they drive.
  \<^item> \<open>Format\<close>: Python's number formatting as the KPI cards use it: \<open>.1f\<close>
    (\<open>fmt_1f\<close>, \<open>fmt_cell_1f\<close>), \<open>,.0f\<close> (\<open>fmt_grouped_0f\<close>), \<open>str\<close>
    of a count (\<open>show_nat\<close>), rounding half to even, and the reference reader
    \<open>parse_number\<close>.
  \<^item> \<open>Dashboard\<close>: the tables of tabs 1-4 and the tool counts of tab 5
    (\<open>overview_kpis\<close>, the \<open>st.metric\<close> cards \<open>overview_metrics\<close>, \<open>country_means\<close>, \<open>content_by_country\<close>,
    \<open>compare_by\<close>, \<open>trend_by\<close>, \<open>time_trend\<close>, \<open>tool_counts\<close>,
    \<open>tools_in\<close>).
  \<^item> \<open>Correlation\<close>: \<open>DataFrame.corr()\<close> as pandas computes it: the mask of
    complete pairs (\<open>complete_pairs\<close>), Welford's streaming moments
    (\<open>welford_step\<close>, \<open>welford\<close>), one entry (\<open>nancorr_entry\<close>) and the matrix
    with the lower triangle mirrored (\<open>corr_matrix\<close>); the reference \<open>pearson\<close>.
  \<^item> \<open>DeepDive\<close>: the scatter plot with its axis selectboxes (\<open>scatter\<close>), the
    two pies as handed to pyecharts (\<open>industry_pie\<close>, \<open>country_pie\<close>), the box
    plots' groups (\<open>box_groups\<close>, \<open>industry_boxes\<close>, \<open>regulation_boxes\<close>), the
    sunburst's path sums (\<open>sunburst\<close>) and the heatmap (\<open>heatmap\<close>).
  \<^item> \<open>Charts\<close>: the boundary to plotly express: each \<open>px.*\<close> call of the page as a
    \<open>px_chart\<close> record (kind, the columns of the frame it is given, its column
    arguments, \<open>nbins\<close>, title), one definition per call site (\<open>overview_histograms\<close>,
    \<open>choropleth_chart\<close>, \<open>metric_bar_chart\<close>, \<open>trend_line_chart\<close>,
    \<open>scatter_chart_call\<close>, \<open>tool_bar_chart\<close>, ...), and \<open>px_validate\<close>, plotly's
    check that raises \<open>ValueError\<close> for a column argument the frame does not have.
  \<^item> \<open>Session\<close>: the whole page (\<open>render\<close>, every tab in script order), one
    script run (\<open>run_script\<close>) and a session of reruns (\<open>apply_event\<close>,
    \<open>ui_trace\<close>, \<open>run_session\<close>); the page's field \<open>charts\<close> lists the plotly
    calls of a run in script order (\<open>page_charts\<close>).
  \<^item> This theory: the sample frame of the spec's scenarios, the properties that span
    the components, and the witnesses of the theorems with hypotheses.

  \<^bold>\<open>How the state corresponds to the code.\<close> A frame is its list of rows in index
  order; boolean indexing is \<open>filter\<close>, which keeps the order. Every Python
  exception of the modelled code is a value of \<open>df_error\<close> in the left of a sum; a
  NaN is \<open>None\<close>. Widget state is what the Streamlit frontend sends: \<open>None\<close> for
  an untouched widget, else the chosen positions in the widget's options. The
  sequence of reruns is an explicit list of (interaction, CSV file state) pairs
  threaded through \<open>run_session\<close>. There is no loop that may diverge: every
  recursion is structural over a list (pandas' correlation loop is a \<open>foldl\<close>
  over the complete pairs), except the digit loops of number formatting, which
  divide by 10 or 1000 and are proved to terminate on every input, so no fuel or
  bound is needed.

  \<^bold>\<open>What is proved.\<close> The filter refines the spec's set contract, keeps row order,
  is the identity on the default selection, empty on an empty dimension and monotone
  in the selection (\<open>Filters\<close>). The mean is NaN exactly when no value is present
  and bounded by the values (\<open>Aggregation\<close>). The bar-chart tables are permutations of the grouped means in
  descending order with NaN last; value counts are correct, sum to the number of
  rows and are sorted (\<open>Aggregation\<close>, \<open>Dashboard\<close>). The KPI strings read
  back to their values within the displayed precision (0.05 for \<open>.1f\<close>, 0.5 for
  \<open>,.0f\<close>) (\<open>Format\<close>). pandas' streaming
  correlation equals the two-pass Pearson coefficient; the heatmap is the
  matrix of Pearson coefficients of all column pairs, each NaN or in [-1, 1], with 1
  or NaN on the diagonal (\<open>Correlation\<close>). The sunburst's volumes add up to
  the total-volume KPI, and the volume-by-country chart shows each country's mean
  volume (\<open>Dashboard\<close>, \<open>DeepDive\<close>). No plotly call of the page
  raises, whatever the widgets select, and the metric bar and trend charts are handed
  the tables that the tabs compute for the metric their selectbox chose
  (\<open>Charts\<close>, \<open>Session\<close>). No widget state and no frame makes the page raise; a run
  fails only on a failed first load, a session never reads the file again after one
  successful load, and from the first rerun at which the file reads every rerun
  renders a page; an empty view shows "nan%", "0 TB/year" and "0" on the KPI cards
  (\<open>Session\<close>). Permuting the CSV rows changes none of the KPIs,
  grouped tables or the heatmap, and the heatmap cell of the scatter plot's two axes
  is the correlation of exactly the points it draws (this theory).

  \<^bold>\<open>Findings.\<close> The keyed Industries multiselect (lines 53-58) is dead: its
  selection is overwritten by the unkeyed second widget (lines 60-64)
  (\<open>Filters.sidebar_ignores_keyed_industries\<close>). The "AI-Generated Content Volume
  by Country" chart averages the volume per country (line 163) where the spec
  speaks of a sum: it differs from the total for every country with two or more
  volumes of non-zero sum (\<open>Dashboard.volume_by_country_is_mean\<close>). The tool
  pies' options are \<open>unique()\<close> in order of first appearance, so the default pie is
  the industry of the view's first row and, whenever the view has two industries,
  some order of the same CSV rows shows another pie: the one part of the page that
  depends on the order of the CSV rows
  (\<open>DeepDive.tool_pie_default_depends_on_row_order\<close>). On an
  empty view the pies are titled "Tool Usage in None Industry" and "Tool Usage in
  None", the heatmap is all NaN (\<open>Session.render_no_countries\<close>) and the mean
  KPIs read "nan%" where the spec asks for "no data"
  (\<open>Session.render_no_countries_metrics\<close>); a constant
  column, such as Year when one year is selected, has a NaN row and column
  (\<open>Correlation.corr_matrix_diag\<close>); the "All Metrics" heatmap includes Year.

  \<^bold>\<open>Not modelled.\<close> Rendering (plotly, seaborn, pyecharts, \<open>st.metric\<close>
  drawing, chart styling and layout updates), CSV parsing itself, the page header and
  tab labels (lines 11, 21-25 and 73-79: constant texts, no state), the bins of the two
  overview histograms (plotly's autobin algorithm chooses them inside the library; the
  model has the call, its frame and its \<open>nbins\<close>), the box plots' quartiles (computed by plotly in the browser), the drawing of the choropleth map, and floating-point rounding: cells are exact reals, so the order
  independence of means and correlations and the equality of Welford's streaming
  moments with the two-pass formula hold in the model exactly and in float64 up to
  rounding.
\<close>

subsection \<open>The spec's sample frame\<close>

definition spec_row :: "int \<Rightarrow> string \<Rightarrow> string \<Rightarrow> real \<Rightarrow> real \<Rightarrow> string \<Rightarrow> row" where
  "spec_row y c i a v tool =
     \<lparr>Year = y, Country = c, Industry = i, adoption_rate = Some a, content_volume = Some v,
      job_loss = None, revenue_increase = None, collaboration_rate = None,
      top_tools = tool, regulation_status = ''Moderate'', consumer_trust = None\<rparr>"

definition spec_frame :: frame where
  "spec_frame =
     [spec_row 2020 ''USA'' ''Media'' 40 10 ''ChatGPT'',
      spec_row 2020 ''USA'' ''Media'' 60 20 ''Midjourney'',
      spec_row 2021 ''UK'' ''Retail'' 30 5 ''ChatGPT'']"

text \<open>The spec's filter years = {2020}, countries = {USA}, industries = {Media}.\<close>

definition scenario_selection :: selection where
  "scenario_selection = \<lparr>sel_years = [2020], sel_countries = [''USA''], sel_industries = [''Media'']\<rparr>"

lemmas spec_data = spec_frame_def spec_row_def

lemma scenario_filter: "filter_df spec_frame scenario_selection = take 2 spec_frame"
  by (simp add: spec_data scenario_selection_def filter_df_def row_selected_def)

subsection \<open>Properties across components\<close>

text \<open>
  C5. Order independence of the page: permuting the rows of the CSV file changes
  neither the sidebar's options and selection nor any KPI, grouped mean, sorted bar
  table, trend line, the sunburst or the correlation heatmap; the filtered view, the scatter plot's
  points and the tool popularity table hold the same rows and counts.
\<close>

theorem render_row_order:
  assumes m: "mset df = mset df'"
    and p: "render df u = Inr p" and p': "render df' u = Inr p'"
  shows "page_options p = page_options p' \<and> page_selection p = page_selection p' \<and>
    mset (filtered p) = mset (filtered p') \<and> overview p = overview p' \<and>
    means_by_country p = means_by_country p' \<and> volume_by_country p = volume_by_country p' \<and>
    metric_by_country p = metric_by_country p' \<and> metric_by_industry p = metric_by_industry p' \<and>
    content_sunburst p = content_sunburst p' \<and> adoption_trend_country p = adoption_trend_country p' \<and>
    adoption_trend_industry p = adoption_trend_industry p' \<and> metric_trend p = metric_trend p' \<and>
    x_col (scatter_chart p) = x_col (scatter_chart p') \<and> y_col (scatter_chart p) = y_col (scatter_chart p') \<and>
    mset (points (scatter_chart p)) = mset (points (scatter_chart p')) \<and>
    mset (tool_popularity p) = mset (tool_popularity p') \<and> correlation p = correlation p'"
proof -
  let ?w = "sidebar_w u"
  let ?F = "filter_df df (sidebar df ?w)" and ?F' = "filter_df df' (sidebar df ?w)"
  have s: "set df = set df'" using m by (rule set_mset_cong)
  have sel: "sidebar df' ?w = sidebar df ?w" by (rule sidebar_perm [OF s, symmetric])
  have f: "mset ?F = mset ?F'" using m by (rule mset_filter_df_cong)
  note P = render_page [OF p, unfolded Let_def]
    and P' = render_page [OF p', unfolded Let_def sel]
  have "page_options p = page_options p' \<and> page_selection p = page_selection p'"
    using sidebar_options_perm [OF s] by (simp add: P P')
  moreover have "mset (filtered p) = mset (filtered p')" using f by (simp add: P P')
  moreover have "overview p = overview p'" using overview_kpis_perm [OF f] by (simp add: P P')
  moreover have "means_by_country p = means_by_country p'"
    using country_means_perm [OF f] by (simp add: P P')
  moreover have "volume_by_country p = volume_by_country p'"
    using content_by_country_perm [OF f] by (simp add: P P')
  moreover have "metric_by_country p = metric_by_country p' \<and> metric_by_industry p = metric_by_industry p'"
    using compare_by_perm [OF f, of Country] compare_by_perm [OF f, of Industry] by (simp add: P P')
  moreover have "adoption_trend_country p = adoption_trend_country p' \<and>
      adoption_trend_industry p = adoption_trend_industry p' \<and> metric_trend p = metric_trend p'"
    using trend_by_perm [OF f] time_trend_perm [OF f] by (simp add: P P')
  moreover have "x_col (scatter_chart p) = x_col (scatter_chart p') \<and>
      y_col (scatter_chart p) = y_col (scatter_chart p') \<and>
      mset (points (scatter_chart p)) = mset (points (scatter_chart p'))"
    using scatter_perm [OF f, of "scatter_x (page_w u)" "scatter_y (page_w u)"] by (auto simp: P P')
  moreover have "mset (tool_popularity p) = mset (tool_popularity p')"
    using value_counts_perm [OF mset_map_cong [OF f]] by (simp add: P P' tool_counts_def)
  moreover have "correlation p = correlation p'" using heatmap_perm [OF f] by (simp add: P P')
  moreover have "content_sunburst p = content_sunburst p'" using sunburst_perm [OF f] by (simp add: P P')
  ultimately show ?thesis by blast
qed

lemma col_pairs_points:
  "col_pairs xc yc fdf =
   complete_pairs (map (\<lambda>(x, y, _). (x, y)) (map (\<lambda>r. (numval xc r, numval yc r, Industry r, Country r, Year r)) fdf))"
  by (simp add: col_pairs_def comp_def)

lemma numeric_col_index: "\<exists>i < length numeric_cols. numeric_cols ! i = c"
  using numcol_in_numeric_cols [of c] by (simp add: in_set_conv_nth)

text \<open>
  C29. The scatter plot and the heatmap agree: the heatmap cell in the row and
  column labelled with the scatter plot's two axes holds the Pearson correlation of
  exactly the points the scatter plot draws (those with both coordinates).
\<close>

theorem scatter_matches_heatmap:
  assumes p: "render df u = Inr p"
  shows "\<exists>i j. i < 7 \<and> j < 7 \<and>
    fst (correlation p) ! i = col_label (x_col (scatter_chart p)) \<and>
    fst (correlation p) ! j = col_label (y_col (scatter_chart p)) \<and>
    snd (correlation p) ! i ! j =
      pearson (complete_pairs (map (\<lambda>(x, y, _). (x, y)) (points (scatter_chart p))))"
proof -
  let ?fdf = "filter_df df (sidebar df (sidebar_w u))"
  obtain xc yc where sc: "scatter (scatter_x (page_w u)) (scatter_y (page_w u)) ?fdf =
     Inr \<lparr>x_col = xc, y_col = yc,
          points = map (\<lambda>r. (numval xc r, numval yc r, Industry r, Country r, Year r)) ?fdf,
          scatter_title = ''Relationship between '' @ col_label xc @ '' and '' @ col_label yc\<rparr>"
    using scatter_Inr by blast
  have P: "correlation p = heatmap ?fdf" "scatter_chart p = projr (scatter (scatter_x (page_w u)) (scatter_y (page_w u)) ?fdf)"
    using render_page [OF p] by (simp_all add: Let_def)
  obtain i where i: "i < length numeric_cols" "numeric_cols ! i = xc" using numeric_col_index by blast
  obtain j where j: "j < length numeric_cols" "numeric_cols ! j = yc" using numeric_col_index by blast
  have "corr_matrix numeric_cols ?fdf ! i ! j = pearson (col_pairs xc yc ?fdf)"
    using corr_matrix_pearson [OF i(1) j(1)] i j by simp
  then show ?thesis
    using i j by (intro exI [of _ i] exI [of _ j])
      (simp add: P sc heatmap_def col_pairs_points length_numeric_cols)
qed

subsection \<open>Witnesses\<close>

theorem filter_df_sound_witness:
  "subseq (filter_df spec_frame scenario_selection) spec_frame \<and>
   set (map Country (filter_df spec_frame scenario_selection)) \<subseteq> {''USA''} \<and>
   set (map Industry (filter_df spec_frame scenario_selection)) \<subseteq> {''Media''} \<and>
   length (filter_df spec_frame scenario_selection) = 2"
proof -
  have "subseq (filter_df spec_frame scenario_selection) spec_frame \<and>
    (\<forall>r \<in> set (filter_df spec_frame scenario_selection).
      Year r \<in> set (sel_years scenario_selection) \<and>
      Country r \<in> set (sel_countries scenario_selection) \<and>
      Industry r \<in> set (sel_industries scenario_selection))"
    by (rule Filters.filter_df_sound)
  then have "subseq (filter_df spec_frame scenario_selection) spec_frame \<and>
    set (map Country (filter_df spec_frame scenario_selection)) \<subseteq> {''USA''} \<and>
    set (map Industry (filter_df spec_frame scenario_selection)) \<subseteq> {''Media''}"
    by (auto simp: scenario_selection_def)
  moreover have "length (filter_df spec_frame scenario_selection) = 2"
    unfolding scenario_filter by (simp add: spec_data)
  ultimately show ?thesis by blast
qed

theorem filter_df_empty_dimension_witness:
  "sel_countries (sidebar spec_frame (untouched\<lparr>countries_ms := Some []\<rparr>)) = [] \<and>
   filter_df spec_frame (sidebar spec_frame (untouched\<lparr>countries_ms := Some []\<rparr>)) = []"
proof -
  have h: "sel_countries (sidebar spec_frame (untouched\<lparr>countries_ms := Some []\<rparr>)) = []"
    by (simp add: sidebar_unfold untouched_def multiselect_def pick_def)
  show ?thesis
    using h Filters.filter_df_empty_dimension [of "sidebar spec_frame (untouched\<lparr>countries_ms := Some []\<rparr>)" spec_frame]
    by simp
qed

theorem filter_df_mono_witness:
  "subseq (filter_df spec_frame scenario_selection) (filter_df spec_frame (sidebar spec_frame untouched))"
proof -
  have "sidebar spec_frame untouched =
          \<lparr>sel_years = [2020, 2021], sel_countries = [''UK'', ''USA''], sel_industries = [''Media'', ''Retail'']\<rparr>"
    by (simp add: spec_data sidebar_unfold untouched_def multiselect_def unique_sorted_def)
  then show ?thesis
    using Filters.filter_df_mono [of scenario_selection "sidebar spec_frame untouched" spec_frame]
    by (simp add: scenario_selection_def)
qed

theorem metric_charts_match_tables_witness:
  "\<exists>p. render spec_frame fresh_ui = Inr p \<and>
    (\<exists>c. metric_by_country p = sort_values_desc (groupby_mean Country (numval c) (filtered p)) \<and>
         metric_bar_chart ''Country'' (col_label c) \<in> set (charts p)) \<and>
    (\<exists>c. metric_by_industry p = sort_values_desc (groupby_mean Industry (numval c) (filtered p)) \<and>
         metric_bar_chart ''Industry'' (col_label c) \<in> set (charts p)) \<and>
    (\<exists>c g k. key_column g = Inr k \<and> metric_trend p = trend_by k (numval c) (filtered p) \<and>
         trend_line_chart g (col_label c) (col_label c @ '' Over Time by '' @ g) \<in> set (charts p))"
proof -
  obtain p where p: "render spec_frame fresh_ui = Inr p" using render_Inr by blast
  show ?thesis using Session.metric_charts_match_tables [OF p] p by blast
qed

theorem series_mean_None_iff_witness:
  "series_mean [None, None] = None \<and> series_mean [None, Some 3] = Some 3"
  using Aggregation.series_mean_None_iff [of "[None, None]"] by (simp add: series_unfold)

theorem series_mean_bounds_witness:
  "dropna [Some 40, None, Some 60] = [40, 60] \<and>
   series_mean [Some 40, None, Some 60] = Some 50 \<and> 0 \<le> (50::real) \<and> (50::real) \<le> 100"
proof -
  have h1: "\<forall>v \<in> set (dropna [Some 40, None, Some 60]). 0 \<le> v \<and> v \<le> (100::real)" by simp
  have h2: "series_mean [Some 40, None, Some 60] = Some 50" by (simp add: series_unfold)
  show ?thesis using Aggregation.series_mean_bounds [OF h1 h2] h2 by simp
qed

theorem render_no_countries_witness:
  "countries_ms (sidebar_w (fresh_ui\<lparr>sidebar_w := untouched\<lparr>countries_ms := Some []\<rparr>\<rparr>)) = Some [] \<and>
   (\<exists>p. render spec_frame (fresh_ui\<lparr>sidebar_w := untouched\<lparr>countries_ms := Some []\<rparr>\<rparr>) = Inr p \<and>
        filtered p = [] \<and> avg_adoption (overview p) = None \<and> total_content (overview p) = 0)"
proof -
  have h: "countries_ms (sidebar_w (fresh_ui\<lparr>sidebar_w := untouched\<lparr>countries_ms := Some []\<rparr>\<rparr>)) = Some []"
    by simp
  show ?thesis using Session.render_no_countries [OF h, of spec_frame] h by auto
qed

theorem render_no_countries_metrics_witness:
  "countries_ms (sidebar_w (fresh_ui\<lparr>sidebar_w := untouched\<lparr>countries_ms := Some []\<rparr>\<rparr>)) = Some [] \<and>
   (\<exists>p. render spec_frame (fresh_ui\<lparr>sidebar_w := untouched\<lparr>countries_ms := Some []\<rparr>\<rparr>) = Inr p \<and>
        hd (overview_cards p) = (''Average AI Adoption'', ''nan%''))"
proof -
  have h: "countries_ms (sidebar_w (fresh_ui\<lparr>sidebar_w := untouched\<lparr>countries_ms := Some []\<rparr>\<rparr>)) = Some []"
    by simp
  obtain p where p: "render spec_frame (fresh_ui\<lparr>sidebar_w := untouched\<lparr>countries_ms := Some []\<rparr>\<rparr>) = Inr p"
    using render_Inr by blast
  show ?thesis using Session.render_no_countries_metrics [OF h p] p h by simp
qed

theorem tools_in_pie_witness:
  "tools_in Industry None spec_frame = (Some ''Media'', [(''ChatGPT'', 1), (''Midjourney'', 1)]) \<and>
   ''Media'' \<in> Industry ` set spec_frame \<and>
   sum_list (map snd [(''ChatGPT'', 1::nat), (''Midjourney'', 1)]) =
     length (filter (\<lambda>r. Industry r = ''Media'') spec_frame)"
proof -
  have h: "tools_in Industry None spec_frame = (Some ''Media'', [(''ChatGPT'', 1), (''Midjourney'', 1)])"
    by (simp add: tools_in_def selectbox_for_def selectbox_def value_counts_def pd_unique_def spec_data)
  show ?thesis using Dashboard.tools_in_pie [OF h] h by simp
qed

theorem render_row_order_witness:
  "mset spec_frame = mset (rev spec_frame) \<and>
   (\<exists>p p'. render spec_frame fresh_ui = Inr p \<and> render (rev spec_frame) fresh_ui = Inr p' \<and>
      overview p = overview p' \<and> volume_by_country p = volume_by_country p' \<and>
      correlation p = correlation p')"
proof -
  obtain p where p: "render spec_frame fresh_ui = Inr p" using render_Inr by blast
  obtain p' where p': "render (rev spec_frame) fresh_ui = Inr p'" using render_Inr by blast
  have m: "mset spec_frame = mset (rev spec_frame)" by simp
  show ?thesis using render_row_order [OF m p p'] p p' m by blast
qed

theorem corr_matrix_diag_witness:
  "1 < length numeric_cols \<and> corr_matrix numeric_cols spec_frame ! 1 ! 1 = Some 1"
proof -
  have l: "1 < length numeric_cols" by (simp add: numeric_cols_def)
  have v: "dropna (map (numval (numeric_cols ! 1)) spec_frame) = [40, 60, 30]"
    by (simp add: numeric_cols_def spec_data)
  have "\<exists>x \<in> set (dropna (map (numval (numeric_cols ! 1)) spec_frame)).
        \<exists>y \<in> set (dropna (map (numval (numeric_cols ! 1)) spec_frame)). x \<noteq> y"
    unfolding v by (intro bexI [of _ 40] bexI [of _ 60]) simp_all
  then show ?thesis using Correlation.corr_matrix_diag [OF l, of spec_frame] l by simp
qed

theorem volume_by_country_is_mean_witness:
  "map_of (content_by_country spec_frame) ''USA'' = Some (Some 15) \<and>
   map_of (content_by_country spec_frame) ''USA'' \<noteq> Some (Some 30)"
proof -
  have c: "''USA'' \<in> Country ` set spec_frame" by (simp add: spec_data)
  show ?thesis
    using Dashboard.volume_by_country_is_mean [OF c] by (simp add: spec_data series_unfold)
qed

theorem tool_pie_default_depends_on_row_order_witness:
  "pie_title (industry_pie None spec_frame) = ''Tool Usage in Media Industry'' \<and>
   (\<exists>fdf'. mset fdf' = mset spec_frame \<and>
      pie_title (industry_pie None fdf') \<noteq> ''Tool Usage in Media Industry'')"
proof -
  have r: "spec_frame ! 0 \<in> set spec_frame" "spec_frame ! 2 \<in> set spec_frame"
    "Industry (spec_frame ! 0) \<noteq> Industry (spec_frame ! 2)"
    by (simp_all add: spec_data)
  have h: "Industry (hd spec_frame) = ''Media''" by (simp add: spec_data)
  have t: "pie_title (industry_pie None spec_frame) = ''Tool Usage in '' @ Industry (hd spec_frame) @ '' Industry''"
    and e: "\<exists>fdf'. mset fdf' = mset spec_frame \<and>
      pie_title (industry_pie None fdf') \<noteq> pie_title (industry_pie None spec_frame)"
    using DeepDive.tool_pie_default_depends_on_row_order [OF r] by blast+
  have t': "pie_title (industry_pie None spec_frame) = ''Tool Usage in Media Industry''"
    using t by (simp add: h)
  show ?thesis using t' e by simp
qed

theorem run_session_recovers_witness:
  "fst (run_session empty_cache fresh_ui [(Refresh, CsvMissing), (SetYears [0], CsvTable spec_frame), (Refresh, CsvMissing)]) ! 0 =
     Inl FileNotFoundError \<and>
   (\<exists>p. fst (run_session empty_cache fresh_ui [(Refresh, CsvMissing), (SetYears [0], CsvTable spec_frame), (Refresh, CsvMissing)]) ! 2 = Inr p)"
proof -
  have "\<forall>j. 1 \<le> j \<and> j < 3 \<longrightarrow> (\<exists>p. fst (run_session empty_cache fresh_ui
      [(Refresh, CsvMissing), (SetYears [0], CsvTable spec_frame), (Refresh, CsvMissing)]) ! j = Inr p)"
    using Session.run_session_recovers [of 1 "[(Refresh, CsvMissing), (SetYears [0], CsvTable spec_frame), (Refresh, CsvMissing)]"
        spec_frame empty_cache fresh_ui] by simp
  moreover have "fst (run_session empty_cache fresh_ui [(Refresh, CsvMissing), (SetYears [0], CsvTable spec_frame), (Refresh, CsvMissing)]) ! 0 =
     Inl FileNotFoundError"
    by (simp add: run_script_def load_data_def read_csv_def empty_cache_def split: prod.split)
  ultimately show ?thesis by simp
qed

theorem scatter_matches_heatmap_witness:
  "\<exists>p. render spec_frame fresh_ui = Inr p \<and>
     (\<exists>i j. i < 7 \<and> j < 7 \<and> fst (correlation p) ! i = col_label (x_col (scatter_chart p)) \<and>
        fst (correlation p) ! j = col_label (y_col (scatter_chart p)) \<and>
        snd (correlation p) ! i ! j =
          pearson (complete_pairs (map (\<lambda>(x, y, _). (x, y)) (points (scatter_chart p)))))"
proof -
  obtain p where p: "render spec_frame fresh_ui = Inr p" using render_Inr by blast
  show ?thesis using scatter_matches_heatmap [OF p] p by blast
qed

end
